theory Spec2Isabelle
  imports Complex_Main
begin

section \<open>Go values used by both source files\<close>

text \<open>
  A Go \<^verbatim>\<open>error\<close> is an interface value; \<^verbatim>\<open>nil\<close> is \<open>None\<close> of
  \<open>go_error option\<close>. The error values this code meets are kept by their construction:
  \<^item> \<open>errorString m\<close>: an error known by its message, \<^verbatim>\<open>errors.New(m)\<close>;
  \<^item> \<open>NumError f s e\<close>: strconv's \<^verbatim>\<open>&NumError{Func: f, Num: s, Err: e}\<close>;
  \<^item> \<open>Errorf fmt ops e\<close>: the value of \<^verbatim>\<open>fmt.Errorf(fmt, ops..., e)\<close> for a format
    whose last verb is \<^verbatim>\<open>%w\<close>: it carries the format, the operands before the wrapped
    error, and the wrapped error \<open>e\<close>.
\<close>

datatype go_error =
    errorString string
  | NumError string string go_error
  | Errorf string "string list" go_error

fun Unwrap :: "go_error \<Rightarrow> go_error option" where
  "Unwrap (errorString m) = None"
| "Unwrap (NumError f s e) = Some e"
| "Unwrap (Errorf fmt ops e) = Some e"

text \<open>
  \<^verbatim>\<open>fmt.Sprintf\<close> on string operands, for formats whose only verb is \<^verbatim>\<open>%s\<close>, as
  the two path constants below are. An operand is copied as it is and never read as a
  format. As in Go, a verb without operand prints \<^verbatim>\<open>%!s(MISSING)\<close>, a \<^verbatim>\<open>%\<close> that
  ends the format prints \<^verbatim>\<open>%!(NOVERB)\<close>, and operands left over are reported after
  the text.
\<close>

fun EXTRA :: "string list \<Rightarrow> string" where
  "EXTRA [] = []"
| "EXTRA [a] = ''string='' @ a"
| "EXTRA (a # b # as) = ''string='' @ a @ '', '' @ EXTRA (b # as)"

fun Sprintf :: "string \<Rightarrow> string list \<Rightarrow> string" where
  "Sprintf [] [] = []"
| "Sprintf [] (a # as) = ''%!(EXTRA '' @ EXTRA (a # as) @ '')''"
| "Sprintf [c] as = (if c = CHR ''%'' then ''%!(NOVERB)'' else [c]) @ Sprintf [] as"
| "Sprintf (c # v # fmt) as =
     (if c = CHR ''%'' \<and> v = CHR ''s''
      then (case as of
              [] \<Rightarrow> ''%!s(MISSING)'' @ Sprintf fmt []
            | a # rest \<Rightarrow> a @ Sprintf fmt rest)
      else c # Sprintf (v # fmt) as)"

section \<open>sysdig/internal/client/v2/cloudauth.go\<close>

definition cloudauthAccountsPath :: string where
  "cloudauthAccountsPath = ''%s/api/cloudauth/v1/accounts''"

definition cloudauthAccountPath :: string where
  "cloudauthAccountPath = ''%s/api/cloudauth/v1/accounts/%s''"

text \<open>The constants of \<^verbatim>\<open>net/http\<close> the file names.\<close>

definition MethodGet :: string where "MethodGet = ''GET''"
definition MethodPost :: string where "MethodPost = ''POST''"
definition MethodPut :: string where "MethodPut = ''PUT''"
definition MethodDelete :: string where "MethodDelete = ''DELETE''"

definition StatusOK :: int where "StatusOK = 200"
definition StatusCreated :: int where "StatusCreated = 201"
definition StatusNoContent :: int where "StatusNoContent = 204"
definition StatusNotFound :: int where "StatusNotFound = 404"

text \<open>
  What the client reads of an \<^verbatim>\<open>*http.Response\<close>: the status code and the body.
  (\<^verbatim>\<open>defer response.Body.Close()\<close> releases the body after the result is computed and
  has no part in it.)
\<close>

record response =
  StatusCode :: int
  Body :: string

text \<open>
  The \<^verbatim>\<open>Client\<close>. Its declaration and its collaborators are not in this file, so
  they are fields of the record, to be supplied:
  \<^item> \<open>config_url\<close> is \<^verbatim>\<open>client.config.url\<close>;
  \<^item> \<open>requester_Request\<close> is \<^verbatim>\<open>client.requester.Request(ctx, method, url, payload)\<close>.
    It acts on the remote service, whose state \<open>'w\<close> it takes and returns; its Go result
    \<^verbatim>\<open>(*http.Response, error)\<close> is \<open>Inl err\<close> when the error is not nil and
    \<open>Inr response\<close> otherwise. The payload is an \<^verbatim>\<open>io.Reader\<close>, \<open>None\<close> for nil;
  \<^item> \<open>ErrorFromResponse\<close> is \<^verbatim>\<open>client.ErrorFromResponse(response)\<close>, whose result type
    \<^verbatim>\<open>error\<close> admits nil;
  \<^item> \<open>Marshal\<close> and \<open>Unmarshal\<close> are the package's \<^verbatim>\<open>Marshal(v)\<close> and
    \<^verbatim>\<open>Unmarshal[*CloudauthAccountSecure](body)\<close>, with their Go result pairs.
  The struct \<^verbatim>\<open>CloudauthAccountSecure\<close> is only handed to \<open>Marshal\<close> and received from
  \<open>Unmarshal\<close>: it is the type parameter \<open>'a\<close>, and a \<^verbatim>\<open>*CloudauthAccountSecure\<close> is an
  \<open>'a option\<close>.
\<close>

record ('w, 'a) Client =
  config_url :: string
  requester_Request ::
    "string \<Rightarrow> string \<Rightarrow> string option \<Rightarrow> 'w \<Rightarrow> (go_error + response) \<times> 'w"
  ErrorFromResponse :: "response \<Rightarrow> go_error option"
  Marshal :: "'a option \<Rightarrow> string option \<times> go_error option"
  Unmarshal :: "string \<Rightarrow> 'a option \<times> go_error option"

definition cloudauthAccountsURL :: "('w, 'a) Client \<Rightarrow> string" where
  "cloudauthAccountsURL client = Sprintf cloudauthAccountsPath [config_url client]"

definition cloudauthAccountURL :: "('w, 'a) Client \<Rightarrow> string \<Rightarrow> string" where
  "cloudauthAccountURL client accountID =
     Sprintf cloudauthAccountPath [config_url client, accountID]"

text \<open>
  The four operations. Each returns its Go result (a pair of the struct pointer and the
  error, or the error alone for Delete) and the state of the remote service after it.
\<close>

definition CreateCloudauthAccountSecure ::
  "('w, 'a) Client \<Rightarrow> 'a option \<Rightarrow> 'w \<Rightarrow> ('a option \<times> go_error option) \<times> 'w" where
  "CreateCloudauthAccountSecure client cloudAccount w =
     (case Marshal client cloudAccount of
        (payload, Some err) \<Rightarrow> ((None, Some err), w)
      | (payload, None) \<Rightarrow>
          (case requester_Request client MethodPost (cloudauthAccountsURL client) payload w of
             (Inl err, w') \<Rightarrow> ((None, Some err), w')
           | (Inr response, w') \<Rightarrow>
               if StatusCode response \<noteq> StatusOK \<and> StatusCode response \<noteq> StatusCreated
               then ((None, ErrorFromResponse client response), w')
               else (Unmarshal client (Body response), w')))"

definition GetCloudauthAccountSecure ::
  "('w, 'a) Client \<Rightarrow> string \<Rightarrow> 'w \<Rightarrow> ('a option \<times> go_error option) \<times> 'w" where
  "GetCloudauthAccountSecure client accountID w =
     (case requester_Request client MethodGet (cloudauthAccountURL client accountID) None w of
        (Inl err, w') \<Rightarrow> ((None, Some err), w')
      | (Inr response, w') \<Rightarrow>
          if StatusCode response \<noteq> StatusOK
          then ((None, ErrorFromResponse client response), w')
          else (Unmarshal client (Body response), w'))"

definition DeleteCloudauthAccountSecure ::
  "('w, 'a) Client \<Rightarrow> string \<Rightarrow> 'w \<Rightarrow> go_error option \<times> 'w" where
  "DeleteCloudauthAccountSecure client accountID w =
     (case requester_Request client MethodDelete (cloudauthAccountURL client accountID) None w of
        (Inl err, w') \<Rightarrow> (Some err, w')
      | (Inr response, w') \<Rightarrow>
          if StatusCode response \<noteq> StatusNoContent \<and> StatusCode response \<noteq> StatusOK
          then (ErrorFromResponse client response, w')
          else (None, w'))"

definition UpdateCloudauthAccountSecure ::
  "('w, 'a) Client \<Rightarrow> string \<Rightarrow> 'a option \<Rightarrow> 'w \<Rightarrow> ('a option \<times> go_error option) \<times> 'w" where
  "UpdateCloudauthAccountSecure client accountID cloudAccount w =
     (case Marshal client cloudAccount of
        (payload, Some err) \<Rightarrow> ((None, Some err), w)
      | (payload, None) \<Rightarrow>
          (case requester_Request client MethodPut (cloudauthAccountURL client accountID) payload w of
             (Inl err, w') \<Rightarrow> ((None, Some err), w')
           | (Inr response, w') \<Rightarrow>
               if StatusCode response \<noteq> StatusOK
               then ((None, ErrorFromResponse client response), w')
               else (Unmarshal client (Body response), w')))"

section \<open>The Go library functions the resource file calls\<close>

subsection \<open>strconv\<close>

text \<open>
  \<^verbatim>\<open>strconv.Atoi\<close> and \<^verbatim>\<open>strconv.Itoa\<close>, for the 64-bit \<^verbatim>\<open>int\<close>. \<open>ParseUint\<close> is
  the scan of \<^verbatim>\<open>strconv.ParseUint(s, 10, 64)\<close> over the bytes after the sign, with
  the number read so far: a byte that is no digit is a syntax error; a digit that would
  take the number past \<open>2^64 - 1\<close> is a range error, reported where the scan meets it. Atoi
  returns 0 with a syntax error, the nearest bound of \<^verbatim>\<open>int\<close> with a range error.
\<close>

definition ErrSyntax :: go_error where
  "ErrSyntax = errorString ''invalid syntax''"

definition ErrRange :: go_error where
  "ErrRange = errorString ''value out of range''"

datatype scanned = Number nat | Syntax | Range

definition is_digit :: "char \<Rightarrow> bool" where
  "is_digit c \<longleftrightarrow> 48 \<le> (of_char c :: nat) \<and> (of_char c :: nat) \<le> 57"

definition maxUint64 :: nat where
  "maxUint64 = 18446744073709551615"

definition maxInt64 :: int where
  "maxInt64 = 9223372036854775807"

fun ParseUint :: "nat \<Rightarrow> string \<Rightarrow> scanned" where
  "ParseUint n [] = Number n"
| "ParseUint n (c # cs) =
     (if \<not> is_digit c then Syntax
      else if n \<ge> maxUint64 div 10 + 1 then Range
      else if n * 10 + (of_char c - 48) > maxUint64 then Range
      else ParseUint (n * 10 + (of_char c - 48)) cs)"

definition Atoi :: "string \<Rightarrow> int \<times> go_error option" where
  "Atoi s =
     (let neg = (s \<noteq> [] \<and> hd s = CHR ''-'');
          digits = (if s \<noteq> [] \<and> (hd s = CHR ''+'' \<or> hd s = CHR ''-'') then tl s else s)
      in if digits = [] then (0, Some (NumError ''Atoi'' s ErrSyntax))
         else (case ParseUint 0 digits of
                 Syntax \<Rightarrow> (0, Some (NumError ''Atoi'' s ErrSyntax))
               | Range \<Rightarrow>
                   (if neg then - maxInt64 - 1 else maxInt64, Some (NumError ''Atoi'' s ErrRange))
               | Number un \<Rightarrow>
                   if \<not> neg \<and> int un > maxInt64
                   then (maxInt64, Some (NumError ''Atoi'' s ErrRange))
                   else if neg \<and> int un > maxInt64 + 1
                   then (- maxInt64 - 1, Some (NumError ''Atoi'' s ErrRange))
                   else (if neg then - int un else int un, None)))"

function digits_of :: "nat \<Rightarrow> string" where
  "digits_of n =
     (if n < 10 then [char_of (48 + n)]
      else digits_of (n div 10) @ [char_of (48 + n mod 10)])"
  by pat_completeness auto
termination
  by (relation "measure id") auto

definition Itoa :: "int \<Rightarrow> string" where
  "Itoa i = (if i < 0 then CHR ''-'' # digits_of (nat (- i)) else digits_of (nat i))"

subsection \<open>terraform-plugin-sdk: diag and schema.ResourceData\<close>

text \<open>
  \<^verbatim>\<open>diag.FromErr(err)\<close> is nil for a nil error, and otherwise the one diagnostic of
  severity Error whose Summary is \<^verbatim>\<open>err.Error()\<close>. The model keeps in \<open>Summary\<close> the
  error whose message that is. \<^verbatim>\<open>diag.Diagnostics\<close> is a slice; nil is \<open>[]\<close>.
\<close>

datatype Severity = SeverityError | SeverityWarning

record Diagnostic =
  Severity :: Severity
  Summary :: go_error

type_synonym Diagnostics = "Diagnostic list"

definition FromErr :: "go_error option \<Rightarrow> Diagnostics" where
  "FromErr err =
     (case err of None \<Rightarrow> [] | Some e \<Rightarrow> [\<lparr>Severity = SeverityError, Summary = e\<rparr>])"

text \<open>
  \<^verbatim>\<open>*schema.ResourceData\<close>: the resource's ID and its attributes. The schema gives
  every key a type, \<^verbatim>\<open>TypeString\<close> or \<^verbatim>\<open>TypeFloat\<close> for the keys of this resource, so
  the attributes are kept by type, and \<^verbatim>\<open>d.Get(k).(string)\<close> is \<open>Get_string d k\<close>. As a
  \<^verbatim>\<open>float64\<close> is only stored, copied and compared with zero here, it is a \<open>real\<close>.
  \<^item> \<^verbatim>\<open>Get\<close> returns the value of the key, the zero value of its type when there is none;
  \<^item> \<^verbatim>\<open>GetOk\<close> returns the value and whether the key has been set to a non-zero value;
  \<^item> \<^verbatim>\<open>Set\<close> stores a value (given a non-nil pointer to a float, the float);
  \<^item> \<^verbatim>\<open>Id\<close> and \<^verbatim>\<open>SetId\<close> read and write the ID.
\<close>

record ResourceData =
  rd_Id :: string
  rd_strings :: "string \<rightharpoonup> string"
  rd_floats :: "string \<rightharpoonup> real"

definition SetId :: "ResourceData \<Rightarrow> string \<Rightarrow> ResourceData" where
  "SetId d v = d\<lparr>rd_Id := v\<rparr>"

definition Get_string :: "ResourceData \<Rightarrow> string \<Rightarrow> string" where
  "Get_string d k = (case rd_strings d k of None \<Rightarrow> [] | Some v \<Rightarrow> v)"

definition Get_float :: "ResourceData \<Rightarrow> string \<Rightarrow> real" where
  "Get_float d k = (case rd_floats d k of None \<Rightarrow> 0 | Some v \<Rightarrow> v)"

definition GetOk_float :: "ResourceData \<Rightarrow> string \<Rightarrow> real \<times> bool" where
  "GetOk_float d k = (case rd_floats d k of None \<Rightarrow> (0, False) | Some v \<Rightarrow> (v, v \<noteq> 0))"

definition Set_string :: "ResourceData \<Rightarrow> string \<Rightarrow> string \<Rightarrow> ResourceData" where
  "Set_string d k v = d\<lparr>rd_strings := (rd_strings d)(k \<mapsto> v)\<rparr>"

definition Set_float :: "ResourceData \<Rightarrow> string \<Rightarrow> real \<Rightarrow> ResourceData" where
  "Set_float d k v = d\<lparr>rd_floats := (rd_floats d)(k \<mapsto> v)\<rparr>"

section \<open>sysdig/resource_sysdig_monitor_alert_v2_metric.go\<close>

subsection \<open>The structs of package monitor and the functions declared elsewhere\<close>

text \<open>
  The structs are declared in package \<^verbatim>\<open>monitor\<close>, which is not among the sources; the
  records hold the fields this file reads and writes, with the types it uses them at.
  \<^item> \<^verbatim>\<open>AlertV2Common\<close>: \<open>ID\<close> (an \<^verbatim>\<open>int\<close>), \<open>Type\<close>, and its other fields together
    as \<open>CommonFields\<close> of a type parameter \<open>'c\<close>, since this file never looks at them;
  \<^item> \<^verbatim>\<open>ScopedSegmentedConfig\<close> is the type parameter \<open>'s\<close>, for the same reason;
  \<^item> \<open>WarningThreshold\<close> is a \<^verbatim>\<open>*float64\<close>, \<open>Config\<close> a \<^verbatim>\<open>*AlertV2ConfigMetric\<close>:
    \<open>None\<close> is nil. \<open>Metric_ID\<close> and \<open>Metric_PublicID\<close> are \<^verbatim>\<open>Metric.ID\<close> and
    \<^verbatim>\<open>Metric.PublicID\<close>; \<open>LabelDescriptor_ID\<close> and \<open>LabelDescriptor_PublicID\<close> are
    \<^verbatim>\<open>LabelDescriptor.ID\<close> and \<^verbatim>\<open>LabelDescriptor.PublicID\<close> of a label descriptor.
\<close>

datatype AlertV2AlertType = AlertV2AlertType_Manual | AlertV2AlertType_Other string

record 'c AlertV2Common =
  ID :: int
  Type :: AlertV2AlertType
  CommonFields :: 'c

record AlertMetricDescriptorV2 =
  Metric_ID :: string
  Metric_PublicID :: string

record 's AlertV2ConfigMetric =
  ScopedSegmentedConfig :: 's
  ConditionOperator :: string
  Threshold :: real
  WarningConditionOperator :: string
  WarningThreshold :: "real option"
  TimeAggregation :: string
  GroupAggregation :: string
  Metric :: AlertMetricDescriptorV2
  NoDataBehaviour :: string

record ('c, 's) AlertV2Metric =
  AlertV2Common :: "'c AlertV2Common"
  Config :: "'s AlertV2ConfigMetric option"

record LabelDescriptorV3 =
  LabelDescriptor_ID :: string
  LabelDescriptor_PublicID :: string

text \<open>
  \<^verbatim>\<open>monitor.SysdigMonitorClient\<close>, by the five methods this file calls. A method acts on
  the remote service: it takes the state \<open>'w\<close> of the service and returns the new one. A
  Go result \<^verbatim>\<open>(T, error)\<close> is \<open>Inl err\<close> when the error is not nil (the file then never
  reads the value) and \<open>Inr v\<close> otherwise.
\<close>

record ('w, 'c, 's) SysdigMonitorClient =
  GetLabelDescriptor :: "string \<Rightarrow> 'w \<Rightarrow> (go_error + LabelDescriptorV3) \<times> 'w"
  CreateAlertV2Metric ::
    "('c, 's) AlertV2Metric \<Rightarrow> 'w \<Rightarrow> (go_error + ('c, 's) AlertV2Metric) \<times> 'w"
  GetAlertV2MetricById :: "int \<Rightarrow> 'w \<Rightarrow> (go_error + ('c, 's) AlertV2Metric) \<times> 'w"
  UpdateAlertV2Metric ::
    "('c, 's) AlertV2Metric \<Rightarrow> 'w \<Rightarrow> (go_error + ('c, 's) AlertV2Metric) \<times> 'w"
  DeleteAlertV2Metric :: "int \<Rightarrow> 'w \<Rightarrow> go_error option \<times> 'w"

text \<open>
  \<open>i\<close>, the provider's meta value: \<^verbatim>\<open>i.(SysdigClients).sysdigMonitorClient()\<close> gives the
  client or an error.
\<close>

record ('w, 'c, 's) SysdigClients =
  sysdigMonitorClient :: "go_error + ('w, 'c, 's) SysdigMonitorClient"

text \<open>
  The four functions of package \<^verbatim>\<open>sysdig\<close> that this file calls and that are declared in
  other files: they are supplied. The two builders read \<open>d\<close> and may call the client;
  \<open>buildScopedSegmentedConfigStruct\<close> fills the struct it is given a pointer to, which is
  the \<open>Inr\<close> value here. The two state updaters write into \<open>d\<close> and return an error or nil.
\<close>

record ('w, 'c, 's) declared_elsewhere =
  buildAlertV2CommonStruct ::
    "ResourceData \<Rightarrow> ('w, 'c, 's) SysdigMonitorClient \<Rightarrow> 'w \<Rightarrow> (go_error + 'c AlertV2Common) \<times> 'w"
  buildScopedSegmentedConfigStruct ::
    "ResourceData \<Rightarrow> ('w, 'c, 's) SysdigMonitorClient \<Rightarrow> 'w \<Rightarrow> (go_error + 's) \<times> 'w"
  updateAlertV2CommonState ::
    "ResourceData \<Rightarrow> 'c AlertV2Common \<Rightarrow> ResourceData \<times> go_error option"
  updateScopedSegmentedConfigState :: "ResourceData \<Rightarrow> 's \<Rightarrow> ResourceData \<times> go_error option"

text \<open>A call returns, or panics (a nil pointer is dereferenced).\<close>

datatype 'a outcome = Returns 'a | Panics

subsection \<open>buildAlertV2MetricStruct and updateAlertV2MetricState\<close>

definition buildAlertV2MetricStruct ::
  "('w, 'c, 's) declared_elsewhere \<Rightarrow> ResourceData \<Rightarrow> ('w, 'c, 's) SysdigMonitorClient \<Rightarrow> 'w \<Rightarrow>
   (('c, 's) AlertV2Metric option \<times> go_error option) \<times> 'w" where
  "buildAlertV2MetricStruct env d client w =
     (case buildAlertV2CommonStruct env d client w of
        (Inl err, w1) \<Rightarrow> ((None, Some err), w1)
      | (Inr alertV2Common, w1) \<Rightarrow>
          let alertV2Common = alertV2Common\<lparr>Type := AlertV2AlertType_Manual\<rparr> in
          (case buildScopedSegmentedConfigStruct env d client w1 of
             (Inl err, w2) \<Rightarrow> ((None, Some err), w2)
           | (Inr scoped, w2) \<Rightarrow>
               let config = \<lparr>ScopedSegmentedConfig = scoped, ConditionOperator = [],
                             Threshold = 0, WarningConditionOperator = [],
                             WarningThreshold = None, TimeAggregation = [],
                             GroupAggregation = [],
                             Metric = \<lparr>Metric_ID = [], Metric_PublicID = []\<rparr>,
                             NoDataBehaviour = []\<rparr>;
                   config = config\<lparr>ConditionOperator := Get_string d ''op''\<rparr>;
                   config = config\<lparr>Threshold := Get_float d ''threshold''\<rparr>;
                   config = (case GetOk_float d ''warning_threshold'' of
                               (warningThreshold, True) \<Rightarrow>
                                 config\<lparr>WarningThreshold := Some warningThreshold,
                                        WarningConditionOperator := ConditionOperator config\<rparr>
                             | (warningThreshold, False) \<Rightarrow> config);
                   config = config\<lparr>TimeAggregation := Get_string d ''time_aggregation''\<rparr>;
                   config = config\<lparr>GroupAggregation := Get_string d ''group_aggregation''\<rparr>;
                   metric = Get_string d ''metric''
               in (case GetLabelDescriptor client metric w2 of
                     (Inl err, w3) \<Rightarrow>
                       ((None, Some (Errorf ''error getting descriptor for label %s: %w''
                                       [metric] err)), w3)
                   | (Inr labelDescriptorV3, w3) \<Rightarrow>
                       let config = config\<lparr>Metric :=
                              \<lparr>Metric_ID = LabelDescriptor_ID labelDescriptorV3,
                               Metric_PublicID = LabelDescriptor_PublicID labelDescriptorV3\<rparr>\<rparr>;
                           config = config\<lparr>NoDataBehaviour := Get_string d ''no_data_behaviour''\<rparr>;
                           alert = \<lparr>AlertV2Common = alertV2Common, Config = Some config\<rparr>
                       in ((Some alert, None), w3))))"

definition updateAlertV2MetricState ::
  "('w, 'c, 's) declared_elsewhere \<Rightarrow> ResourceData \<Rightarrow> ('c, 's) AlertV2Metric \<Rightarrow>
   (ResourceData \<times> go_error option) outcome" where
  "updateAlertV2MetricState env d alert =
     (case updateAlertV2CommonState env d (AlertV2Common alert) of
        (d, Some err) \<Rightarrow> Returns (d, Some err)
      | (d, None) \<Rightarrow>
          (case Config alert of
             None \<Rightarrow> Panics
           | Some config \<Rightarrow>
               (case updateScopedSegmentedConfigState env d (ScopedSegmentedConfig config) of
                  (d, Some err) \<Rightarrow> Returns (d, Some err)
                | (d, None) \<Rightarrow>
                    let d = Set_string d ''op'' (ConditionOperator config);
                        d = Set_float d ''threshold'' (Threshold config);
                        d = (case WarningThreshold config of
                               Some wt \<Rightarrow> Set_float d ''warning_threshold'' wt
                             | None \<Rightarrow> d);
                        d = Set_string d ''time_aggregation'' (TimeAggregation config);
                        d = Set_string d ''group_aggregation'' (GroupAggregation config);
                        d = Set_string d ''metric'' (Metric_PublicID (Metric config));
                        d = Set_string d ''no_data_behaviour'' (NoDataBehaviour config)
                    in Returns (d, None))))"

subsection \<open>The four handlers\<close>

text \<open>
  A handler returns its diagnostics; the model returns with them the resource data and
  the state of the remote service as the handler leaves them.
\<close>

definition resourceSysdigMonitorAlertV2MetricCreate ::
  "('w, 'c, 's) declared_elsewhere \<Rightarrow> ResourceData \<Rightarrow> ('w, 'c, 's) SysdigClients \<Rightarrow> 'w \<Rightarrow>
   (Diagnostics \<times> ResourceData \<times> 'w) outcome" where
  "resourceSysdigMonitorAlertV2MetricCreate env d i w =
     (case sysdigMonitorClient i of
        Inl err \<Rightarrow> Returns (FromErr (Some err), d, w)
      | Inr client \<Rightarrow>
          (case buildAlertV2MetricStruct env d client w of
             ((a, Some err), w1) \<Rightarrow> Returns (FromErr (Some err), d, w1)
           | ((None, None), w1) \<Rightarrow> Panics
           | ((Some a, None), w1) \<Rightarrow>
               (case CreateAlertV2Metric client a w1 of
                  (Inl err, w2) \<Rightarrow> Returns (FromErr (Some err), d, w2)
                | (Inr aCreated, w2) \<Rightarrow>
                    let d = SetId d (Itoa (ID (AlertV2Common aCreated))) in
                    (case updateAlertV2MetricState env d aCreated of
                       Panics \<Rightarrow> Panics
                     | Returns (d, Some err) \<Rightarrow> Returns (FromErr (Some err), d, w2)
                     | Returns (d, None) \<Rightarrow> Returns ([], d, w2)))))"

definition resourceSysdigMonitorAlertV2MetricRead ::
  "('w, 'c, 's) declared_elsewhere \<Rightarrow> ResourceData \<Rightarrow> ('w, 'c, 's) SysdigClients \<Rightarrow> 'w \<Rightarrow>
   (Diagnostics \<times> ResourceData \<times> 'w) outcome" where
  "resourceSysdigMonitorAlertV2MetricRead env d i w =
     (case sysdigMonitorClient i of
        Inl err \<Rightarrow> Returns (FromErr (Some err), d, w)
      | Inr client \<Rightarrow>
          (case Atoi (rd_Id d) of
             (alertId, Some err) \<Rightarrow> Returns (FromErr (Some err), d, w)
           | (alertId, None) \<Rightarrow>
               (case GetAlertV2MetricById client alertId w of
                  (Inl err, w1) \<Rightarrow> Returns ([], SetId d [], w1)
                | (Inr a, w1) \<Rightarrow>
                    (case updateAlertV2MetricState env d a of
                       Panics \<Rightarrow> Panics
                     | Returns (d, Some err) \<Rightarrow> Returns (FromErr (Some err), d, w1)
                     | Returns (d, None) \<Rightarrow> Returns ([], d, w1)))))"

definition resourceSysdigMonitorAlertV2MetricUpdate ::
  "('w, 'c, 's) declared_elsewhere \<Rightarrow> ResourceData \<Rightarrow> ('w, 'c, 's) SysdigClients \<Rightarrow> 'w \<Rightarrow>
   (Diagnostics \<times> ResourceData \<times> 'w) outcome" where
  "resourceSysdigMonitorAlertV2MetricUpdate env d i w =
     (case sysdigMonitorClient i of
        Inl err \<Rightarrow> Returns (FromErr (Some err), d, w)
      | Inr client \<Rightarrow>
          (case buildAlertV2MetricStruct env d client w of
             ((a, Some err), w1) \<Rightarrow> Returns (FromErr (Some err), d, w1)
           | ((None, None), w1) \<Rightarrow> Panics
           | ((Some a, None), w1) \<Rightarrow>
               let a = a\<lparr>AlertV2Common := (AlertV2Common a)\<lparr>ID := fst (Atoi (rd_Id d))\<rparr>\<rparr> in
               (case UpdateAlertV2Metric client a w1 of
                  (Inl err, w2) \<Rightarrow> Returns (FromErr (Some err), d, w2)
                | (Inr aUpdated, w2) \<Rightarrow>
                    (case updateAlertV2MetricState env d aUpdated of
                       Panics \<Rightarrow> Panics
                     | Returns (d, Some err) \<Rightarrow> Returns (FromErr (Some err), d, w2)
                     | Returns (d, None) \<Rightarrow> Returns ([], d, w2)))))"

definition resourceSysdigMonitorAlertV2MetricDelete ::
  "('w, 'c, 's) declared_elsewhere \<Rightarrow> ResourceData \<Rightarrow> ('w, 'c, 's) SysdigClients \<Rightarrow> 'w \<Rightarrow>
   (Diagnostics \<times> ResourceData \<times> 'w) outcome" where
  "resourceSysdigMonitorAlertV2MetricDelete env d i w =
     (case sysdigMonitorClient i of
        Inl err \<Rightarrow> Returns (FromErr (Some err), d, w)
      | Inr client \<Rightarrow>
          (case Atoi (rd_Id d) of
             (alertId, Some err) \<Rightarrow> Returns (FromErr (Some err), d, w)
           | (alertId, None) \<Rightarrow>
               (case DeleteAlertV2Metric client alertId w of
                  (Some err, w1) \<Rightarrow> Returns (FromErr (Some err), d, w1)
                | (None, w1) \<Rightarrow> Returns ([], d, w1))))"

section \<open>Notions used in the statements\<close>

text \<open>
  A decimal integer, in the words of the specification: an optional sign followed by
  one or more decimal digits. It is a notion of the statements, not of the code.
\<close>

definition decimal_integer :: "string \<Rightarrow> bool" where
  "decimal_integer s \<longleftrightarrow>
     (let digits = (if s \<noteq> [] \<and> (hd s = CHR ''+'' \<or> hd s = CHR ''-'') then tl s else s)
      in digits \<noteq> [] \<and> list_all is_digit digits)"

text \<open>
  Two closed forms, proved below to be what the code computes: \<open>built_config d scoped ld\<close>
  is the config that \<open>buildAlertV2MetricStruct\<close> builds from \<open>d\<close>, the scoped config and
  the label descriptor (lemma \<open>build_steps\<close>); \<open>written_state d config\<close> is \<open>d\<close> after the
  seven \<^verbatim>\<open>d.Set\<close> calls of \<open>updateAlertV2MetricState\<close> (lemma \<open>update_steps\<close>).
\<close>

definition built_config :: "ResourceData \<Rightarrow> 's \<Rightarrow> LabelDescriptorV3 \<Rightarrow> 's AlertV2ConfigMetric" where
  "built_config d scoped ld =
     \<lparr>ScopedSegmentedConfig = scoped,
      ConditionOperator = Get_string d ''op'',
      Threshold = Get_float d ''threshold'',
      WarningConditionOperator =
        (if snd (GetOk_float d ''warning_threshold'') then Get_string d ''op'' else []),
      WarningThreshold =
        (if snd (GetOk_float d ''warning_threshold'')
         then Some (fst (GetOk_float d ''warning_threshold'')) else None),
      TimeAggregation = Get_string d ''time_aggregation'',
      GroupAggregation = Get_string d ''group_aggregation'',
      Metric = \<lparr>Metric_ID = LabelDescriptor_ID ld, Metric_PublicID = LabelDescriptor_PublicID ld\<rparr>,
      NoDataBehaviour = Get_string d ''no_data_behaviour''\<rparr>"

definition written_state :: "ResourceData \<Rightarrow> 's AlertV2ConfigMetric \<Rightarrow> ResourceData" where
  "written_state d config =
     d\<lparr>rd_strings := (rd_strings d)
          (''op'' \<mapsto> ConditionOperator config,
           ''time_aggregation'' \<mapsto> TimeAggregation config,
           ''group_aggregation'' \<mapsto> GroupAggregation config,
           ''metric'' \<mapsto> Metric_PublicID (Metric config),
           ''no_data_behaviour'' \<mapsto> NoDataBehaviour config),
        rd_floats :=
          (case WarningThreshold config of
             None \<Rightarrow> (rd_floats d)(''threshold'' \<mapsto> Threshold config)
           | Some wt \<Rightarrow> (rd_floats d)(''threshold'' \<mapsto> Threshold config, ''warning_threshold'' \<mapsto> wt))\<rparr>"

section \<open>Concrete collaborators\<close>

text \<open>
  A client to run the operations on: its requester answers every request with the given
  status code and body and appends the request to the log of requests, which is the
  state of the remote service; \<open>ErrorFromResponse\<close> makes an error of the body;
  \<open>Marshal\<close> and \<open>Unmarshal\<close> copy (the account is its own JSON text).
\<close>

type_synonym request_log = "(string \<times> string \<times> string option) list"

definition logging_client :: "int \<Rightarrow> string \<Rightarrow> (request_log, string) Client" where
  "logging_client code body =
     \<lparr>config_url = ''https://secure.sysdig.com'',
      requester_Request =
        (\<lambda>method url payload w. (Inr \<lparr>StatusCode = code, Body = body\<rparr>, w @ [(method, url, payload)])),
      ErrorFromResponse = (\<lambda>r. Some (errorString (Body r))),
      Marshal = (\<lambda>v. (v, None)),
      Unmarshal = (\<lambda>b. (Some b, None))\<rparr>"

text \<open>
  A monitor client to run the handlers on. The state of the remote service is the list
  of the calls made so far; each method appends its call. The label lookup is given;
  the four alert methods fail with the given error or, given none, succeed: Create
  answers with the alert under ID 7, Update with the alert it was sent, Get with an
  alert of that ID without config.
\<close>

datatype api_call =
    CallGetLabelDescriptor string
  | CallCreateAlertV2Metric
  | CallGetAlertV2MetricById int
  | CallUpdateAlertV2Metric int
  | CallDeleteAlertV2Metric int

definition recording_client ::
  "(string \<Rightarrow> go_error + LabelDescriptorV3) \<Rightarrow> go_error option \<Rightarrow>
   (api_call list, unit, unit) SysdigMonitorClient" where
  "recording_client lookup failure =
     \<lparr>GetLabelDescriptor = (\<lambda>label w. (lookup label, w @ [CallGetLabelDescriptor label])),
      CreateAlertV2Metric =
        (\<lambda>a w. (case failure of
                   Some e \<Rightarrow> Inl e
                 | None \<Rightarrow> Inr (a\<lparr>AlertV2Common := (AlertV2Common a)\<lparr>ID := 7\<rparr>\<rparr>),
                 w @ [CallCreateAlertV2Metric])),
      GetAlertV2MetricById =
        (\<lambda>n w. (case failure of
                   Some e \<Rightarrow> Inl e
                 | None \<Rightarrow> Inr \<lparr>AlertV2Common =
                                  \<lparr>ID = n, Type = AlertV2AlertType_Manual, CommonFields = ()\<rparr>,
                                Config = None\<rparr>,
                 w @ [CallGetAlertV2MetricById n])),
      UpdateAlertV2Metric =
        (\<lambda>a w. (case failure of Some e \<Rightarrow> Inl e | None \<Rightarrow> Inr a,
                 w @ [CallUpdateAlertV2Metric (ID (AlertV2Common a))])),
      DeleteAlertV2Metric = (\<lambda>n w. (failure, w @ [CallDeleteAlertV2Metric n]))\<rparr>"

text \<open>
  Two label lookups: \<open>public_name\<close> answers every name with the descriptor of the CPU
  metric, whose legacy ID is \<^verbatim>\<open>cpu.used.percent\<close> and whose public ID is
  \<^verbatim>\<open>sysdig_container_cpu_used_percent\<close>; \<open>no_descriptor\<close> knows no metric.
\<close>

definition public_name :: "string \<Rightarrow> go_error + LabelDescriptorV3" where
  "public_name label =
     Inr \<lparr>LabelDescriptor_ID = ''cpu.used.percent'',
          LabelDescriptor_PublicID = ''sysdig_container_cpu_used_percent''\<rparr>"

definition no_descriptor :: "string \<Rightarrow> go_error + LabelDescriptorV3" where
  "no_descriptor label = Inl (errorString ''404 Not Found'')"

text \<open>
  The functions declared elsewhere, at their simplest: the common struct is empty with
  ID 0, the scoped config is empty, and the two state updaters write nothing.
\<close>

definition plain_env :: "(api_call list, unit, unit) declared_elsewhere" where
  "plain_env =
     \<lparr>buildAlertV2CommonStruct =
        (\<lambda>d client w. (Inr \<lparr>ID = 0, Type = AlertV2AlertType_Other [], CommonFields = ()\<rparr>, w)),
      buildScopedSegmentedConfigStruct = (\<lambda>d client w. (Inr (), w)),
      updateAlertV2CommonState = (\<lambda>d common. (d, None)),
      updateScopedSegmentedConfigState = (\<lambda>d scoped. (d, None))\<rparr>"

text \<open>
  A configuration: a CPU alert with \<^verbatim>\<open>op = ">"\<close>, of the given ID, metric name and float
  attributes; the request and config it builds into; a state with nothing set; and the
  provider's clients.
\<close>

definition cpu_alert :: "string \<Rightarrow> string \<Rightarrow> (string \<rightharpoonup> real) \<Rightarrow> ResourceData" where
  "cpu_alert ident metric floats =
     \<lparr>rd_Id = ident,
      rd_strings = [''op'' \<mapsto> ''>'', ''metric'' \<mapsto> metric, ''time_aggregation'' \<mapsto> ''avg'',
                    ''group_aggregation'' \<mapsto> ''max'', ''no_data_behaviour'' \<mapsto> ''TRIGGER''],
      rd_floats = floats\<rparr>"

definition cpu_config :: "real option \<Rightarrow> string \<Rightarrow> unit AlertV2ConfigMetric" where
  "cpu_config warning warning_op =
     \<lparr>ScopedSegmentedConfig = (), ConditionOperator = ''>'', Threshold = 90,
      WarningConditionOperator = warning_op, WarningThreshold = warning,
      TimeAggregation = ''avg'', GroupAggregation = ''max'',
      Metric = \<lparr>Metric_ID = ''cpu.used.percent'',
                Metric_PublicID = ''sysdig_container_cpu_used_percent''\<rparr>,
      NoDataBehaviour = ''TRIGGER''\<rparr>"

definition cpu_request :: "int \<Rightarrow> real option \<Rightarrow> string \<Rightarrow> (unit, unit) AlertV2Metric" where
  "cpu_request n warning warning_op =
     \<lparr>AlertV2Common = \<lparr>ID = n, Type = AlertV2AlertType_Manual, CommonFields = ()\<rparr>,
      Config = Some (cpu_config warning warning_op)\<rparr>"

definition fresh_state :: ResourceData where
  "fresh_state = \<lparr>rd_Id = [], rd_strings = Map.empty, rd_floats = Map.empty\<rparr>"

definition clients :: "go_error option \<Rightarrow> (api_call list, unit, unit) SysdigClients" where
  "clients failure = \<lparr>sysdigMonitorClient = Inr (recording_client public_name failure)\<rparr>"

section \<open>The cloudauth client: endpoints and status checks\<close>

lemma Sprintf_accounts_path:
  "Sprintf cloudauthAccountsPath [u] = u @ ''/api/cloudauth/v1/accounts''"
  by (simp add: cloudauthAccountsPath_def)

lemma Sprintf_account_path:
  "Sprintf cloudauthAccountPath [u, a] = u @ ''/api/cloudauth/v1/accounts/'' @ a"
  by (simp add: cloudauthAccountPath_def)

lemma cloudauthAccountsURL_eq:
  "cloudauthAccountsURL client = config_url client @ ''/api/cloudauth/v1/accounts''"
  by (simp add: cloudauthAccountsURL_def Sprintf_accounts_path)

lemma cloudauthAccountURL_eq:
  "cloudauthAccountURL client accountID =
     config_url client @ ''/api/cloudauth/v1/accounts/'' @ accountID"
  by (simp add: cloudauthAccountURL_def Sprintf_account_path)

lemma Create_on_response:
  assumes "Marshal client cloudAccount = (payload, None)"
    and "requester_Request client MethodPost (cloudauthAccountsURL client) payload w = (Inr r, w')"
  shows "CreateCloudauthAccountSecure client cloudAccount w =
           (if StatusCode r \<noteq> StatusOK \<and> StatusCode r \<noteq> StatusCreated
            then ((None, ErrorFromResponse client r), w')
            else (Unmarshal client (Body r), w'))"
  using assms by (simp add: CreateCloudauthAccountSecure_def)

lemma Get_on_response:
  assumes "requester_Request client MethodGet (cloudauthAccountURL client accountID) None w = (Inr r, w')"
  shows "GetCloudauthAccountSecure client accountID w =
           (if StatusCode r \<noteq> StatusOK
            then ((None, ErrorFromResponse client r), w')
            else (Unmarshal client (Body r), w'))"
  using assms by (simp add: GetCloudauthAccountSecure_def)

lemma Delete_on_response:
  assumes "requester_Request client MethodDelete (cloudauthAccountURL client accountID) None w = (Inr r, w')"
  shows "DeleteCloudauthAccountSecure client accountID w =
           (if StatusCode r \<noteq> StatusNoContent \<and> StatusCode r \<noteq> StatusOK
            then (ErrorFromResponse client r, w')
            else (None, w'))"
  using assms by (simp add: DeleteCloudauthAccountSecure_def)

lemma Update_on_response:
  assumes "Marshal client cloudAccount = (payload, None)"
    and "requester_Request client MethodPut (cloudauthAccountURL client accountID) payload w = (Inr r, w')"
  shows "UpdateCloudauthAccountSecure client accountID cloudAccount w =
           (if StatusCode r \<noteq> StatusOK
            then ((None, ErrorFromResponse client r), w')
            else (Unmarshal client (Body r), w'))"
  using assms by (simp add: UpdateCloudauthAccountSecure_def)

text \<open>
  C1. Whenever the requester hands back a response \<open>r\<close>: if its status code is outside the
  operation's accepted set (200 and 201 for Create, 200 for Get and Update, 200 and 204
  for Delete), the operation returns a nil struct together with the error that
  \<open>ErrorFromResponse\<close> makes of the response (the error alone for Delete), which is not nil
  when \<open>ErrorFromResponse\<close> gives \<open>Some e\<close>; if the code is inside the set, Create, Get and
  Update return what \<open>Unmarshal\<close> makes of the body and Delete returns a nil error.
\<close>

theorem cloudauth_status_check:
  fixes client :: "('w, 'a) Client"
  shows
    "(\<forall>cloudAccount payload w r w' e.
        Marshal client cloudAccount = (payload, None) \<and>
        requester_Request client MethodPost (cloudauthAccountsURL client) payload w = (Inr r, w') \<longrightarrow>
        (StatusCode r \<noteq> 200 \<and> StatusCode r \<noteq> 201 \<and> ErrorFromResponse client r = Some e \<longrightarrow>
           CreateCloudauthAccountSecure client cloudAccount w = ((None, Some e), w')) \<and>
        (StatusCode r = 200 \<or> StatusCode r = 201 \<longrightarrow>
           CreateCloudauthAccountSecure client cloudAccount w = (Unmarshal client (Body r), w')))
     \<and>
     (\<forall>accountID w r w' e.
        requester_Request client MethodGet (cloudauthAccountURL client accountID) None w = (Inr r, w') \<longrightarrow>
        (StatusCode r \<noteq> 200 \<and> ErrorFromResponse client r = Some e \<longrightarrow>
           GetCloudauthAccountSecure client accountID w = ((None, Some e), w')) \<and>
        (StatusCode r = 200 \<longrightarrow>
           GetCloudauthAccountSecure client accountID w = (Unmarshal client (Body r), w')))
     \<and>
     (\<forall>accountID cloudAccount payload w r w' e.
        Marshal client cloudAccount = (payload, None) \<and>
        requester_Request client MethodPut (cloudauthAccountURL client accountID) payload w = (Inr r, w') \<longrightarrow>
        (StatusCode r \<noteq> 200 \<and> ErrorFromResponse client r = Some e \<longrightarrow>
           UpdateCloudauthAccountSecure client accountID cloudAccount w = ((None, Some e), w')) \<and>
        (StatusCode r = 200 \<longrightarrow>
           UpdateCloudauthAccountSecure client accountID cloudAccount w = (Unmarshal client (Body r), w')))
     \<and>
     (\<forall>accountID w r w' e.
        requester_Request client MethodDelete (cloudauthAccountURL client accountID) None w = (Inr r, w') \<longrightarrow>
        (StatusCode r \<noteq> 200 \<and> StatusCode r \<noteq> 204 \<and> ErrorFromResponse client r = Some e \<longrightarrow>
           DeleteCloudauthAccountSecure client accountID w = (Some e, w')) \<and>
        (StatusCode r = 200 \<or> StatusCode r = 204 \<longrightarrow>
           DeleteCloudauthAccountSecure client accountID w = (None, w')))"
proof (intro conjI allI impI)
  fix cloudAccount payload w r w' e
  assume h: "Marshal client cloudAccount = (payload, None) \<and>
    requester_Request client MethodPost (cloudauthAccountsURL client) payload w = (Inr r, w')"
  note eq = Create_on_response [OF conjunct1 [OF h] conjunct2 [OF h]]
  { assume "StatusCode r \<noteq> 200 \<and> StatusCode r \<noteq> 201 \<and> ErrorFromResponse client r = Some e"
    then show "CreateCloudauthAccountSecure client cloudAccount w = ((None, Some e), w')"
      by (simp add: eq StatusOK_def StatusCreated_def) }
  { assume "StatusCode r = 200 \<or> StatusCode r = 201"
    then show "CreateCloudauthAccountSecure client cloudAccount w = (Unmarshal client (Body r), w')"
      by (auto simp add: eq StatusOK_def StatusCreated_def) }
next
  fix accountID w r w' e
  assume h: "requester_Request client MethodGet (cloudauthAccountURL client accountID) None w = (Inr r, w')"
  note eq = Get_on_response [OF h]
  { assume "StatusCode r \<noteq> 200 \<and> ErrorFromResponse client r = Some e"
    then show "GetCloudauthAccountSecure client accountID w = ((None, Some e), w')"
      by (simp add: eq StatusOK_def) }
  { assume "StatusCode r = 200"
    then show "GetCloudauthAccountSecure client accountID w = (Unmarshal client (Body r), w')"
      by (simp add: eq StatusOK_def) }
next
  fix accountID cloudAccount payload w r w' e
  assume h: "Marshal client cloudAccount = (payload, None) \<and>
    requester_Request client MethodPut (cloudauthAccountURL client accountID) payload w = (Inr r, w')"
  note eq = Update_on_response [OF conjunct1 [OF h] conjunct2 [OF h]]
  { assume "StatusCode r \<noteq> 200 \<and> ErrorFromResponse client r = Some e"
    then show "UpdateCloudauthAccountSecure client accountID cloudAccount w = ((None, Some e), w')"
      by (simp add: eq StatusOK_def) }
  { assume "StatusCode r = 200"
    then show "UpdateCloudauthAccountSecure client accountID cloudAccount w = (Unmarshal client (Body r), w')"
      by (simp add: eq StatusOK_def) }
next
  fix accountID w r w' e
  assume h: "requester_Request client MethodDelete (cloudauthAccountURL client accountID) None w = (Inr r, w')"
  note eq = Delete_on_response [OF h]
  { assume "StatusCode r \<noteq> 200 \<and> StatusCode r \<noteq> 204 \<and> ErrorFromResponse client r = Some e"
    then show "DeleteCloudauthAccountSecure client accountID w = (Some e, w')"
      by (simp add: eq StatusOK_def StatusNoContent_def) }
  { assume "StatusCode r = 200 \<or> StatusCode r = 204"
    then show "DeleteCloudauthAccountSecure client accountID w = (None, w')"
      by (auto simp add: eq StatusOK_def StatusNoContent_def) }
qed

theorem cloudauth_status_check_witness:
  "CreateCloudauthAccountSecure (logging_client 500 ''boom'') (Some ''acct'') [] =
     ((None, Some (errorString ''boom'')),
      [(''POST'', ''https://secure.sysdig.com/api/cloudauth/v1/accounts'', Some ''acct'')]) \<and>
   CreateCloudauthAccountSecure (logging_client 201 ''acct'') (Some ''acct'') [] =
     ((Some ''acct'', None),
      [(''POST'', ''https://secure.sysdig.com/api/cloudauth/v1/accounts'', Some ''acct'')]) \<and>
   GetCloudauthAccountSecure (logging_client 404 ''gone'') ''42'' [] =
     ((None, Some (errorString ''gone'')),
      [(''GET'', ''https://secure.sysdig.com/api/cloudauth/v1/accounts/42'', None)]) \<and>
   GetCloudauthAccountSecure (logging_client 200 ''acct'') ''42'' [] =
     ((Some ''acct'', None),
      [(''GET'', ''https://secure.sysdig.com/api/cloudauth/v1/accounts/42'', None)]) \<and>
   UpdateCloudauthAccountSecure (logging_client 201 ''made'') ''42'' (Some ''acct'') [] =
     ((None, Some (errorString ''made'')),
      [(''PUT'', ''https://secure.sysdig.com/api/cloudauth/v1/accounts/42'', Some ''acct'')]) \<and>
   UpdateCloudauthAccountSecure (logging_client 200 ''acct'') ''42'' (Some ''acct'') [] =
     ((Some ''acct'', None),
      [(''PUT'', ''https://secure.sysdig.com/api/cloudauth/v1/accounts/42'', Some ''acct'')]) \<and>
   DeleteCloudauthAccountSecure (logging_client 500 ''boom'') ''42'' [] =
     (Some (errorString ''boom''),
      [(''DELETE'', ''https://secure.sysdig.com/api/cloudauth/v1/accounts/42'', None)]) \<and>
   DeleteCloudauthAccountSecure (logging_client 204 ''ok'') ''42'' [] =
     (None, [(''DELETE'', ''https://secure.sysdig.com/api/cloudauth/v1/accounts/42'', None)])"
proof (intro conjI)
  note create = cloudauth_status_check [THEN conjunct1, rule_format]
  note get = cloudauth_status_check [THEN conjunct2, THEN conjunct1, rule_format]
  note update = cloudauth_status_check [THEN conjunct2, THEN conjunct2, THEN conjunct1, rule_format]
  note delete = cloudauth_status_check [THEN conjunct2, THEN conjunct2, THEN conjunct2, rule_format]
  note defs = logging_client_def cloudauthAccountsURL_eq cloudauthAccountURL_eq
    MethodPost_def MethodGet_def MethodPut_def MethodDelete_def
  show "CreateCloudauthAccountSecure (logging_client 500 ''boom'') (Some ''acct'') [] =
     ((None, Some (errorString ''boom'')),
      [(''POST'', ''https://secure.sysdig.com/api/cloudauth/v1/accounts'', Some ''acct'')])"
    by (rule create [THEN conjunct1, rule_format]) (simp add: defs)+
  show "CreateCloudauthAccountSecure (logging_client 201 ''acct'') (Some ''acct'') [] =
     ((Some ''acct'', None),
      [(''POST'', ''https://secure.sysdig.com/api/cloudauth/v1/accounts'', Some ''acct'')])"
    using create [THEN conjunct2, rule_format,
        of "logging_client 201 ''acct''" "Some ''acct''" "Some ''acct''" "[]"
           "\<lparr>StatusCode = 201, Body = ''acct''\<rparr>"]
    by (simp add: defs)
  show "GetCloudauthAccountSecure (logging_client 404 ''gone'') ''42'' [] =
     ((None, Some (errorString ''gone'')),
      [(''GET'', ''https://secure.sysdig.com/api/cloudauth/v1/accounts/42'', None)])"
    by (rule get [THEN conjunct1, rule_format]) (simp add: defs)+
  show "GetCloudauthAccountSecure (logging_client 200 ''acct'') ''42'' [] =
     ((Some ''acct'', None),
      [(''GET'', ''https://secure.sysdig.com/api/cloudauth/v1/accounts/42'', None)])"
    using get [THEN conjunct2, rule_format,
        of "logging_client 200 ''acct''" "''42''" "[]" "\<lparr>StatusCode = 200, Body = ''acct''\<rparr>"]
    by (simp add: defs)
  show "UpdateCloudauthAccountSecure (logging_client 201 ''made'') ''42'' (Some ''acct'') [] =
     ((None, Some (errorString ''made'')),
      [(''PUT'', ''https://secure.sysdig.com/api/cloudauth/v1/accounts/42'', Some ''acct'')])"
    by (rule update [THEN conjunct1, rule_format]) (simp add: defs)+
  show "UpdateCloudauthAccountSecure (logging_client 200 ''acct'') ''42'' (Some ''acct'') [] =
     ((Some ''acct'', None),
      [(''PUT'', ''https://secure.sysdig.com/api/cloudauth/v1/accounts/42'', Some ''acct'')])"
    using update [THEN conjunct2, rule_format,
        of "logging_client 200 ''acct''" "Some ''acct''" "Some ''acct''" "''42''" "[]"
           "\<lparr>StatusCode = 200, Body = ''acct''\<rparr>"]
    by (simp add: defs)
  show "DeleteCloudauthAccountSecure (logging_client 500 ''boom'') ''42'' [] =
     (Some (errorString ''boom''),
      [(''DELETE'', ''https://secure.sysdig.com/api/cloudauth/v1/accounts/42'', None)])"
    by (rule delete [THEN conjunct1, rule_format]) (simp add: defs)+
  show "DeleteCloudauthAccountSecure (logging_client 204 ''ok'') ''42'' [] =
     (None, [(''DELETE'', ''https://secure.sysdig.com/api/cloudauth/v1/accounts/42'', None)])"
    by (rule delete [THEN conjunct2, rule_format]) (simp add: defs)+
qed

text \<open>
  C5. A response with status 404 to the DELETE request makes
  \<open>DeleteCloudauthAccountSecure\<close> return the error that \<open>ErrorFromResponse\<close> makes of it,
  for every account ID: 404 is not 200 or 204 and has no branch of its own.
\<close>

theorem delete_not_found_is_error:
  assumes "requester_Request client MethodDelete (cloudauthAccountURL client accountID) None w
             = (Inr r, w')"
    and "StatusCode r = StatusNotFound"
    and "ErrorFromResponse client r = Some e"
  shows "DeleteCloudauthAccountSecure client accountID w = (Some e, w')"
  using assms(2,3)
  by (simp add: Delete_on_response [OF assms(1)] StatusNotFound_def StatusOK_def StatusNoContent_def)

theorem delete_not_found_is_error_witness:
  "DeleteCloudauthAccountSecure (logging_client 404 ''account not found'') ''42'' [] =
     (Some (errorString ''account not found''),
      [(''DELETE'', ''https://secure.sysdig.com/api/cloudauth/v1/accounts/42'', None)])"
  by (rule delete_not_found_is_error)
     (simp add: logging_client_def cloudauthAccountURL_eq MethodDelete_def StatusNotFound_def)+

text \<open>
  C7. The collection URL is the base URL followed by \<^verbatim>\<open>/api/cloudauth/v1/accounts\<close>, the
  item URL is that followed by \<^verbatim>\<open>/\<close> and the account ID. Create sends one POST to the
  collection URL, Get one GET, Update one PUT and Delete one DELETE to the item URL: the
  state of the remote service after the operation is its state after that one request.
  The payload of Create and Update is what \<open>Marshal\<close> made of the account (and nothing is
  sent when \<open>Marshal\<close> fails); Get and Delete send no payload.
\<close>

theorem cloudauth_endpoints:
  "cloudauthAccountsURL client = config_url client @ ''/api/cloudauth/v1/accounts'' \<and>
   cloudauthAccountURL client accountID =
     config_url client @ ''/api/cloudauth/v1/accounts/'' @ accountID \<and>
   snd (CreateCloudauthAccountSecure client cloudAccount w) =
     (case Marshal client cloudAccount of
        (payload, Some err) \<Rightarrow> w
      | (payload, None) \<Rightarrow>
          snd (requester_Request client ''POST''
                 (config_url client @ ''/api/cloudauth/v1/accounts'') payload w)) \<and>
   snd (GetCloudauthAccountSecure client accountID w) =
     snd (requester_Request client ''GET''
            (config_url client @ ''/api/cloudauth/v1/accounts/'' @ accountID) None w) \<and>
   snd (UpdateCloudauthAccountSecure client accountID cloudAccount w) =
     (case Marshal client cloudAccount of
        (payload, Some err) \<Rightarrow> w
      | (payload, None) \<Rightarrow>
          snd (requester_Request client ''PUT''
                 (config_url client @ ''/api/cloudauth/v1/accounts/'' @ accountID) payload w)) \<and>
   snd (DeleteCloudauthAccountSecure client accountID w) =
     snd (requester_Request client ''DELETE''
            (config_url client @ ''/api/cloudauth/v1/accounts/'' @ accountID) None w)"
proof (intro conjI)
  show "cloudauthAccountsURL client = config_url client @ ''/api/cloudauth/v1/accounts''"
    by (rule cloudauthAccountsURL_eq)
  show "cloudauthAccountURL client accountID =
     config_url client @ ''/api/cloudauth/v1/accounts/'' @ accountID"
    by (rule cloudauthAccountURL_eq)
  show "snd (CreateCloudauthAccountSecure client cloudAccount w) =
     (case Marshal client cloudAccount of
        (payload, Some err) \<Rightarrow> w
      | (payload, None) \<Rightarrow>
          snd (requester_Request client ''POST''
                 (config_url client @ ''/api/cloudauth/v1/accounts'') payload w))"
    by (simp add: CreateCloudauthAccountSecure_def cloudauthAccountsURL_eq MethodPost_def
          split: prod.splits option.splits sum.splits)
  show "snd (GetCloudauthAccountSecure client accountID w) =
     snd (requester_Request client ''GET''
            (config_url client @ ''/api/cloudauth/v1/accounts/'' @ accountID) None w)"
    by (simp add: GetCloudauthAccountSecure_def cloudauthAccountURL_eq MethodGet_def
          split: prod.splits sum.splits)
  show "snd (UpdateCloudauthAccountSecure client accountID cloudAccount w) =
     (case Marshal client cloudAccount of
        (payload, Some err) \<Rightarrow> w
      | (payload, None) \<Rightarrow>
          snd (requester_Request client ''PUT''
                 (config_url client @ ''/api/cloudauth/v1/accounts/'' @ accountID) payload w))"
    by (simp add: UpdateCloudauthAccountSecure_def cloudauthAccountURL_eq MethodPut_def
          split: prod.splits option.splits sum.splits)
  show "snd (DeleteCloudauthAccountSecure client accountID w) =
     snd (requester_Request client ''DELETE''
            (config_url client @ ''/api/cloudauth/v1/accounts/'' @ accountID) None w)"
    by (simp add: DeleteCloudauthAccountSecure_def cloudauthAccountURL_eq MethodDelete_def
          split: prod.splits sum.splits)
qed

section \<open>The metric alert resource\<close>

subsection \<open>What the two mappers compute\<close>

lemma build_steps:
  assumes "buildAlertV2CommonStruct env d client w = (Inr common, w1)"
    and "buildScopedSegmentedConfigStruct env d client w1 = (Inr scoped, w2)"
  shows "buildAlertV2MetricStruct env d client w =
    (case GetLabelDescriptor client (Get_string d ''metric'') w2 of
       (Inl err, w3) \<Rightarrow>
         ((None, Some (Errorf ''error getting descriptor for label %s: %w''
                        [Get_string d ''metric''] err)), w3)
     | (Inr ld, w3) \<Rightarrow>
         ((Some \<lparr>AlertV2Common = common\<lparr>Type := AlertV2AlertType_Manual\<rparr>,
                 Config = Some (built_config d scoped ld)\<rparr>, None), w3))"
  using assms
  by (simp add: buildAlertV2MetricStruct_def built_config_def Let_def
        split: prod.splits sum.splits bool.splits)

lemma build_Some:
  assumes "buildAlertV2MetricStruct env d client w = ((Some alert, None), w')"
  shows "\<exists>common scoped ld w1 w2.
      buildAlertV2CommonStruct env d client w = (Inr common, w1) \<and>
      buildScopedSegmentedConfigStruct env d client w1 = (Inr scoped, w2) \<and>
      GetLabelDescriptor client (Get_string d ''metric'') w2 = (Inr ld, w') \<and>
      alert = \<lparr>AlertV2Common = common\<lparr>Type := AlertV2AlertType_Manual\<rparr>,
               Config = Some (built_config d scoped ld)\<rparr>"
proof -
  obtain r1 w1 where c: "buildAlertV2CommonStruct env d client w = (r1, w1)"
    by (cases "buildAlertV2CommonStruct env d client w")
  show ?thesis
  proof (cases r1)
    case (Inl err)
    with c assms show ?thesis by (simp add: buildAlertV2MetricStruct_def)
  next
    case (Inr common)
    obtain r2 w2 where s: "buildScopedSegmentedConfigStruct env d client w1 = (r2, w2)"
      by (cases "buildScopedSegmentedConfigStruct env d client w1")
    show ?thesis
    proof (cases r2)
      case (Inl err)
      with c s Inr assms show ?thesis by (simp add: buildAlertV2MetricStruct_def)
    next
      case scoped: (Inr scoped)
      from c Inr have c': "buildAlertV2CommonStruct env d client w = (Inr common, w1)" by simp
      from s scoped have s': "buildScopedSegmentedConfigStruct env d client w1 = (Inr scoped, w2)"
        by simp
      from assms show ?thesis
        unfolding build_steps [OF c' s'] using c' s'
        by (auto split: prod.splits sum.splits)
    qed
  qed
qed

lemma update_steps:
  assumes "updateAlertV2CommonState env d (AlertV2Common alert) = (d1, None)"
    and "Config alert = Some config"
    and "updateScopedSegmentedConfigState env d1 (ScopedSegmentedConfig config) = (d2, None)"
  shows "updateAlertV2MetricState env d alert = Returns (written_state d2 config, None)"
  using assms
  by (simp add: updateAlertV2MetricState_def written_state_def Let_def Set_string_def Set_float_def
        split: option.splits)

lemma update_Returns:
  assumes "updateAlertV2MetricState env d alert = Returns (d', None)"
  shows "\<exists>config d1 d2.
      updateAlertV2CommonState env d (AlertV2Common alert) = (d1, None) \<and>
      Config alert = Some config \<and>
      updateScopedSegmentedConfigState env d1 (ScopedSegmentedConfig config) = (d2, None) \<and>
      d' = written_state d2 config"
  using assms
  apply (simp add: updateAlertV2MetricState_def split: prod.splits option.splits)
  apply (simp add: written_state_def Let_def Set_string_def Set_float_def split: option.splits)
  apply auto
  done

subsection \<open>strconv.Atoi on strings that are no decimal integers\<close>

lemma ParseUint_not_Number:
  "\<not> list_all is_digit cs \<Longrightarrow> ParseUint n cs \<noteq> Number m"
  by (induction cs arbitrary: n) (auto split: if_splits)

lemma ParseUint_short:
  "\<not> list_all is_digit cs \<Longrightarrow> n < 10 ^ k \<Longrightarrow> k + length cs \<le> 20 \<Longrightarrow> ParseUint n cs = Syntax"
proof (induction cs arbitrary: n k)
  case Nil
  then show ?case by simp
next
  case (Cons c cs)
  show ?case
  proof (cases "is_digit c")
    case False
    then show ?thesis by simp
  next
    case True
    with Cons.prems(1) have nd: "\<not> list_all is_digit cs" by simp
    then have "cs \<noteq> []" by auto
    then have "length cs \<ge> 1" by (cases cs) auto
    with Cons.prems(3) have k: "k \<le> 18" by simp
    have "(10::nat) ^ k \<le> 10 ^ 18" using k by (intro power_increasing) auto
    with Cons.prems(2) have n: "n < 1000000000000000000" by simp
    from True have dg: "of_char c - 48 \<le> (9::nat)" unfolding is_digit_def by linarith
    from Cons.prems(2) dg have n': "n * 10 + (of_char c - 48) < 10 ^ Suc k" by simp
    have "ParseUint (n * 10 + (of_char c - 48)) cs = Syntax"
      using Cons.IH [OF nd n'] Cons.prems(3) by simp
    with True n dg show ?thesis by (simp add: maxUint64_def)
  qed
qed

lemma Atoi_not_decimal:
  assumes "\<not> decimal_integer s"
  shows "snd (Atoi s) \<noteq> None"
  using assms ParseUint_not_Number
  by (auto simp add: Atoi_def decimal_integer_def Let_def split: scanned.splits if_splits)

lemma Atoi_not_decimal_short:
  assumes "\<not> decimal_integer s" and "length s \<le> 20"
  shows "Atoi s = (0, Some (NumError ''Atoi'' s ErrSyntax))"
proof -
  define digits where "digits = (if s \<noteq> [] \<and> (hd s = CHR ''+'' \<or> hd s = CHR ''-'') then tl s else s)"
  have len: "length digits \<le> 20" using assms(2) by (auto simp add: digits_def)
  show ?thesis
  proof (cases "digits = []")
    case True
    then show ?thesis by (simp add: Atoi_def Let_def digits_def)
  next
    case False
    with assms(1) have "\<not> list_all is_digit digits"
      by (simp add: decimal_integer_def Let_def digits_def)
    then have "ParseUint 0 digits = Syntax"
      using ParseUint_short [of digits 0 0] len by simp
    with False show ?thesis by (simp add: Atoi_def Let_def digits_def)
  qed
qed

lemma Atoi_7: "Atoi ''7'' = (7, None)"
  by (simp add: Atoi_def Let_def is_digit_def maxUint64_def maxInt64_def)

lemma Atoi_abc: "Atoi ''abc'' = (0, Some (NumError ''Atoi'' ''abc'' ErrSyntax))"
  by (simp add: Atoi_def Let_def is_digit_def)

lemma Atoi_overflow_then_letter:
  "Atoi ''99999999999999999999x'' =
     (9223372036854775807, Some (NumError ''Atoi'' ''99999999999999999999x'' ErrRange))"
  by (simp add: Atoi_def Let_def is_digit_def maxUint64_def maxInt64_def)

subsection \<open>The concrete configuration, evaluated\<close>

lemmas example_defs = plain_env_def cpu_alert_def recording_client_def public_name_def
  cpu_config_def cpu_request_def fresh_state_def clients_def no_descriptor_def

lemmas sdk_defs = Get_string_def Get_float_def GetOk_float_def Set_string_def Set_float_def
  SetId_def FromErr_def

lemma build_cpu:
  "buildAlertV2MetricStruct plain_env (cpu_alert ident metric [''threshold'' \<mapsto> 90])
      (recording_client public_name failure) w =
   ((Some (cpu_request 0 None []), None), w @ [CallGetLabelDescriptor metric])"
  by (simp add: buildAlertV2MetricStruct_def example_defs sdk_defs Let_def)

lemma build_cpu_warned:
  "buildAlertV2MetricStruct plain_env
      (cpu_alert ident metric [''threshold'' \<mapsto> 90, ''warning_threshold'' \<mapsto> 80])
      (recording_client public_name failure) w =
   ((Some (cpu_request 0 (Some 80) ''>''), None), w @ [CallGetLabelDescriptor metric])"
  by (simp add: buildAlertV2MetricStruct_def example_defs sdk_defs Let_def)

lemma build_cpu_zero:
  "buildAlertV2MetricStruct plain_env
      (cpu_alert ident metric [''threshold'' \<mapsto> 90, ''warning_threshold'' \<mapsto> 0])
      (recording_client public_name failure) w =
   ((Some (cpu_request 0 None []), None), w @ [CallGetLabelDescriptor metric])"
  by (simp add: buildAlertV2MetricStruct_def example_defs sdk_defs Let_def)

lemma update_cpu:
  "updateAlertV2MetricState plain_env d (cpu_request n warning warning_op) =
     Returns (written_state d (cpu_config warning warning_op), None)"
  by (rule update_steps) (simp add: example_defs)+

lemma update_handler_cpu:
  "resourceSysdigMonitorAlertV2MetricUpdate plain_env (cpu_alert ident metric [''threshold'' \<mapsto> 90])
      (clients None) [] =
   Returns ([], written_state (cpu_alert ident metric [''threshold'' \<mapsto> 90]) (cpu_config None []),
            [CallGetLabelDescriptor metric, CallUpdateAlertV2Metric (fst (Atoi ident))])"
proof -
  have id: "rd_Id (cpu_alert ident metric [''threshold'' \<mapsto> 90]) = ident"
    by (simp add: cpu_alert_def)
  have a: "(cpu_request 0 None [])\<lparr>AlertV2Common :=
             (AlertV2Common (cpu_request 0 None []))\<lparr>ID := n\<rparr>\<rparr> = cpu_request n None []" for n
    by (simp add: cpu_request_def)
  have u: "UpdateAlertV2Metric (recording_client public_name None) (cpu_request n None []) w =
             (Inr (cpu_request n None []), w @ [CallUpdateAlertV2Metric n])" for n w
    by (simp add: recording_client_def cpu_request_def)
  show ?thesis
    by (simp add: resourceSysdigMonitorAlertV2MetricUpdate_def clients_def build_cpu id a u
          update_cpu Let_def)
qed

subsection \<open>The mappers\<close>

text \<open>
  C2, as amended. Let \<open>buildAlertV2MetricStruct\<close> build the request \<open>alert\<close> from the
  configuration \<open>d\<close>, and let \<open>updateAlertV2MetricState\<close> map \<open>alert\<close> into any state
  \<open>d0\<close>, giving \<open>d'\<close>. Then \<open>d'\<close> holds the configured \<open>op\<close>, \<open>threshold\<close>,
  \<open>time_aggregation\<close>, \<open>group_aggregation\<close> and \<open>no_data_behaviour\<close>, and the configured
  \<open>warning_threshold\<close> when that is set and not zero. Its \<open>metric\<close> is the public ID of
  the descriptor that \<open>GetLabelDescriptor\<close> returned for the configured metric name.
\<close>

theorem roundtrip_reproduces:
  assumes "buildAlertV2MetricStruct env d client w = ((Some alert, None), w')"
    and "updateAlertV2MetricState env d0 alert = Returns (d', None)"
  shows "rd_strings d' ''op'' = Some (Get_string d ''op'') \<and>
         rd_floats d' ''threshold'' = Some (Get_float d ''threshold'') \<and>
         (\<forall>v. rd_floats d ''warning_threshold'' = Some v \<and> v \<noteq> 0 \<longrightarrow>
              rd_floats d' ''warning_threshold'' = Some v) \<and>
         rd_strings d' ''time_aggregation'' = Some (Get_string d ''time_aggregation'') \<and>
         rd_strings d' ''group_aggregation'' = Some (Get_string d ''group_aggregation'') \<and>
         rd_strings d' ''no_data_behaviour'' = Some (Get_string d ''no_data_behaviour'') \<and>
         (\<exists>ld w2. GetLabelDescriptor client (Get_string d ''metric'') w2 = (Inr ld, w') \<and>
                  rd_strings d' ''metric'' = Some (LabelDescriptor_PublicID ld))"
proof -
  from build_Some [OF assms(1)] obtain common scoped ld w2 where
    lookup: "GetLabelDescriptor client (Get_string d ''metric'') w2 = (Inr ld, w')"
    and alert: "alert = \<lparr>AlertV2Common = common\<lparr>Type := AlertV2AlertType_Manual\<rparr>,
              Config = Some (built_config d scoped ld)\<rparr>"
    by blast
  from update_Returns [OF assms(2)] obtain config d2 where
    c: "Config alert = Some config" and d': "d' = written_state d2 config"
    by blast
  from c alert have config: "config = built_config d scoped ld" by simp
  have fields: "rd_strings d' ''op'' = Some (Get_string d ''op'')"
    "rd_floats d' ''threshold'' = Some (Get_float d ''threshold'')"
    "rd_strings d' ''time_aggregation'' = Some (Get_string d ''time_aggregation'')"
    "rd_strings d' ''group_aggregation'' = Some (Get_string d ''group_aggregation'')"
    "rd_strings d' ''no_data_behaviour'' = Some (Get_string d ''no_data_behaviour'')"
    "rd_strings d' ''metric'' = Some (LabelDescriptor_PublicID ld)"
    by (simp_all add: d' config written_state_def built_config_def)
  have warning: "rd_floats d' ''warning_threshold'' = Some v"
    if "rd_floats d ''warning_threshold'' = Some v \<and> v \<noteq> 0" for v
    using that by (simp add: d' config written_state_def built_config_def GetOk_float_def)
  from fields warning lookup show ?thesis by blast
qed

theorem roundtrip_reproduces_witness:
  "buildAlertV2MetricStruct plain_env
      (cpu_alert [] ''sysdig_container_cpu_used_percent''
         [''threshold'' \<mapsto> 90, ''warning_threshold'' \<mapsto> 80])
      (recording_client public_name None) [] =
     ((Some (cpu_request 0 (Some 80) ''>''), None),
      [CallGetLabelDescriptor ''sysdig_container_cpu_used_percent'']) \<and>
   updateAlertV2MetricState plain_env fresh_state (cpu_request 0 (Some 80) ''>'') =
     Returns (written_state fresh_state (cpu_config (Some 80) ''>''), None) \<and>
   rd_strings (written_state fresh_state (cpu_config (Some 80) ''>'')) ''op'' = Some ''>'' \<and>
   rd_floats (written_state fresh_state (cpu_config (Some 80) ''>'')) ''threshold'' = Some 90 \<and>
   rd_floats (written_state fresh_state (cpu_config (Some 80) ''>'')) ''warning_threshold''
     = Some 80 \<and>
   rd_strings (written_state fresh_state (cpu_config (Some 80) ''>'')) ''time_aggregation''
     = Some ''avg'' \<and>
   rd_strings (written_state fresh_state (cpu_config (Some 80) ''>'')) ''group_aggregation''
     = Some ''max'' \<and>
   rd_strings (written_state fresh_state (cpu_config (Some 80) ''>'')) ''no_data_behaviour''
     = Some ''TRIGGER'' \<and>
   rd_strings (written_state fresh_state (cpu_config (Some 80) ''>'')) ''metric''
     = Some ''sysdig_container_cpu_used_percent''"
proof -
  let ?m = "''sysdig_container_cpu_used_percent''"
  let ?d = "cpu_alert [] ?m [''threshold'' \<mapsto> 90, ''warning_threshold'' \<mapsto> 80]"
  let ?d' = "written_state fresh_state (cpu_config (Some 80) ''>'')"
  have b: "buildAlertV2MetricStruct plain_env ?d (recording_client public_name None) [] =
     ((Some (cpu_request 0 (Some 80) ''>''), None), [CallGetLabelDescriptor ?m])"
    using build_cpu_warned [of "[]" ?m None "[]"] by simp
  have u: "updateAlertV2MetricState plain_env fresh_state (cpu_request 0 (Some 80) ''>'') =
     Returns (?d', None)"
    by (rule update_cpu)
  note r = roundtrip_reproduces [OF b u]
  from r obtain ld w2 where
    l: "GetLabelDescriptor (recording_client public_name None) (Get_string ?d ''metric'') w2
          = (Inr ld, [CallGetLabelDescriptor ?m])"
    and m: "rd_strings ?d' ''metric'' = Some (LabelDescriptor_PublicID ld)"
    by blast
  from l have "LabelDescriptor_PublicID ld = ?m"
    by (auto simp add: recording_client_def public_name_def)
  with m have metric: "rd_strings ?d' ''metric'' = Some ?m" by simp
  have w: "rd_floats ?d ''warning_threshold'' = Some 80 \<and> (80::real) \<noteq> 0"
    by (simp add: cpu_alert_def)
  from r have "rd_floats ?d' ''warning_threshold'' = Some 80" using w by blast
  with b u r metric show ?thesis
    by (simp add: cpu_alert_def Get_string_def Get_float_def)
qed

text \<open>
  C2 as stated fails. Where the service answers the name \<^verbatim>\<open>cpu.used.percent\<close> with a
  descriptor whose public ID is \<^verbatim>\<open>sysdig_container_cpu_used_percent\<close>, the state holds
  the public ID and not the configured metric. And a \<open>warning_threshold\<close> configured as 0
  is read by \<^verbatim>\<open>GetOk\<close> as not set: the request carries no warning threshold, and none
  is written into a state that had none.
\<close>

theorem roundtrip_changes_metric:
  "Get_string (cpu_alert [] ''cpu.used.percent'' [''threshold'' \<mapsto> 90]) ''metric''
     = ''cpu.used.percent'' \<and>
   buildAlertV2MetricStruct plain_env (cpu_alert [] ''cpu.used.percent'' [''threshold'' \<mapsto> 90])
      (recording_client public_name None) [] =
     ((Some (cpu_request 0 None []), None), [CallGetLabelDescriptor ''cpu.used.percent'']) \<and>
   (case updateAlertV2MetricState plain_env
           (cpu_alert [] ''cpu.used.percent'' [''threshold'' \<mapsto> 90]) (cpu_request 0 None []) of
      Returns (d', err) \<Rightarrow>
        err = None \<and> Get_string d' ''metric'' = ''sysdig_container_cpu_used_percent''
    | Panics \<Rightarrow> False) \<and>
   rd_floats (cpu_alert [] ''sysdig_container_cpu_used_percent''
                [''threshold'' \<mapsto> 90, ''warning_threshold'' \<mapsto> 0]) ''warning_threshold''
     = Some 0 \<and>
   buildAlertV2MetricStruct plain_env
      (cpu_alert [] ''sysdig_container_cpu_used_percent''
         [''threshold'' \<mapsto> 90, ''warning_threshold'' \<mapsto> 0])
      (recording_client public_name None) [] =
     ((Some (cpu_request 0 None []), None),
      [CallGetLabelDescriptor ''sysdig_container_cpu_used_percent'']) \<and>
   (case updateAlertV2MetricState plain_env fresh_state (cpu_request 0 None []) of
      Returns (d', err) \<Rightarrow> err = None \<and> rd_floats d' ''warning_threshold'' = None
    | Panics \<Rightarrow> False)"
  using build_cpu [of "[]" "''cpu.used.percent''" None "[]"]
    build_cpu_zero [of "[]" "''sysdig_container_cpu_used_percent''" None "[]"]
  by (simp add: update_cpu written_state_def cpu_config_def cpu_alert_def fresh_state_def
        Get_string_def)

text \<open>
  C4. When the configuration holds no \<open>warning_threshold\<close>, the request that is built
  has a nil \<open>WarningThreshold\<close> and an empty \<open>WarningConditionOperator\<close>, and
  \<open>updateAlertV2MetricState\<close> with that request writes one float only, \<open>threshold\<close>: the
  \<open>warning_threshold\<close> of the state is what the two updaters declared elsewhere left
  there. The witness is the configuration with \<^verbatim>\<open>op = ">"\<close> and \<^verbatim>\<open>threshold = 90.0\<close>.
\<close>

theorem omitted_warning_threshold:
  assumes "rd_floats d ''warning_threshold'' = None"
    and "buildAlertV2MetricStruct env d client w = ((Some alert, None), w')"
  shows "\<exists>config. Config alert = Some config \<and>
           WarningThreshold config = None \<and> WarningConditionOperator config = [] \<and>
           (\<forall>d0 d1 d2.
              updateAlertV2CommonState env d0 (AlertV2Common alert) = (d1, None) \<and>
              updateScopedSegmentedConfigState env d1 (ScopedSegmentedConfig config) = (d2, None) \<longrightarrow>
              (\<exists>d'. updateAlertV2MetricState env d0 alert = Returns (d', None) \<and>
                    rd_floats d' = (rd_floats d2)(''threshold'' \<mapsto> Threshold config) \<and>
                    rd_floats d' ''warning_threshold'' = rd_floats d2 ''warning_threshold''))"
proof -
  from build_Some [OF assms(2)] obtain common scoped ld where
    alert: "alert = \<lparr>AlertV2Common = common\<lparr>Type := AlertV2AlertType_Manual\<rparr>,
              Config = Some (built_config d scoped ld)\<rparr>"
    by blast
  let ?config = "built_config d scoped ld"
  have c: "Config alert = Some ?config" by (simp add: alert)
  have wt: "WarningThreshold ?config = None" "WarningConditionOperator ?config = []"
    using assms(1) by (simp_all add: built_config_def GetOk_float_def)
  have "\<exists>d'. updateAlertV2MetricState env d0 alert = Returns (d', None) \<and>
           rd_floats d' = (rd_floats d2)(''threshold'' \<mapsto> Threshold ?config) \<and>
           rd_floats d' ''warning_threshold'' = rd_floats d2 ''warning_threshold''"
    if "updateAlertV2CommonState env d0 (AlertV2Common alert) = (d1, None)"
      and "updateScopedSegmentedConfigState env d1 (ScopedSegmentedConfig ?config) = (d2, None)"
    for d0 d1 d2
    using update_steps [OF that(1) c that(2)] wt by (simp add: written_state_def)
  with c wt show ?thesis by blast
qed

theorem omitted_warning_threshold_witness:
  "rd_floats (cpu_alert [] ''sysdig_container_cpu_used_percent'' [''threshold'' \<mapsto> 90])
      ''warning_threshold'' = None \<and>
   Get_string (cpu_alert [] ''sysdig_container_cpu_used_percent'' [''threshold'' \<mapsto> 90]) ''op''
     = ''>'' \<and>
   Get_float (cpu_alert [] ''sysdig_container_cpu_used_percent'' [''threshold'' \<mapsto> 90])
      ''threshold'' = 90 \<and>
   buildAlertV2MetricStruct plain_env
      (cpu_alert [] ''sysdig_container_cpu_used_percent'' [''threshold'' \<mapsto> 90])
      (recording_client public_name None) [] =
     ((Some (cpu_request 0 None []), None),
      [CallGetLabelDescriptor ''sysdig_container_cpu_used_percent'']) \<and>
   WarningThreshold (cpu_config None []) = None \<and>
   WarningConditionOperator (cpu_config None []) = [] \<and>
   (case updateAlertV2MetricState plain_env
           (cpu_alert [] ''sysdig_container_cpu_used_percent'' [''threshold'' \<mapsto> 90])
           (cpu_request 0 None []) of
      Returns (d', err) \<Rightarrow>
        err = None \<and> rd_floats d' ''warning_threshold'' = None \<and>
        rd_floats d' ''threshold'' = Some 90
    | Panics \<Rightarrow> False)"
proof -
  let ?d = "cpu_alert [] ''sysdig_container_cpu_used_percent'' [''threshold'' \<mapsto> 90]"
  have omitted: "rd_floats ?d ''warning_threshold'' = None" by (simp add: cpu_alert_def)
  have b: "buildAlertV2MetricStruct plain_env ?d (recording_client public_name None) [] =
     ((Some (cpu_request 0 None []), None),
      [CallGetLabelDescriptor ''sysdig_container_cpu_used_percent''])"
    using build_cpu [of "[]" "''sysdig_container_cpu_used_percent''" None "[]"] by simp
  from omitted_warning_threshold [OF omitted b] obtain config where
    c: "Config (cpu_request 0 None []) = Some config"
    and wt: "WarningThreshold config = None" "WarningConditionOperator config = []"
    and u: "\<And>d0 d1 d2.
              updateAlertV2CommonState plain_env d0 (AlertV2Common (cpu_request 0 None [])) = (d1, None) \<Longrightarrow>
              updateScopedSegmentedConfigState plain_env d1 (ScopedSegmentedConfig config) = (d2, None) \<Longrightarrow>
              \<exists>d'. updateAlertV2MetricState plain_env d0 (cpu_request 0 None []) = Returns (d', None) \<and>
                    rd_floats d' = (rd_floats d2)(''threshold'' \<mapsto> Threshold config) \<and>
                    rd_floats d' ''warning_threshold'' = rd_floats d2 ''warning_threshold''"
    by blast
  from c have config: "config = cpu_config None []" by (simp add: cpu_request_def)
  have "\<exists>d'. updateAlertV2MetricState plain_env ?d (cpu_request 0 None []) = Returns (d', None) \<and>
          rd_floats d' = (rd_floats ?d)(''threshold'' \<mapsto> Threshold config) \<and>
          rd_floats d' ''warning_threshold'' = rd_floats ?d ''warning_threshold''"
    by (rule u) (simp add: plain_env_def)+
  then obtain d' where
    "updateAlertV2MetricState plain_env ?d (cpu_request 0 None []) = Returns (d', None)"
    "rd_floats d' = (rd_floats ?d)(''threshold'' \<mapsto> Threshold config)"
    "rd_floats d' ''warning_threshold'' = rd_floats ?d ''warning_threshold''"
    by blast
  with omitted b wt show ?thesis
    by (simp add: config cpu_config_def cpu_alert_def Get_string_def Get_float_def)
qed

text \<open>
  C6. When the common struct and the scoped config are built and \<open>GetLabelDescriptor\<close>
  then fails with \<open>err\<close>, \<open>buildAlertV2MetricStruct\<close> returns a nil alert and the error
  \<^verbatim>\<open>fmt.Errorf("error getting descriptor for label %s: %w", metric, err)\<close>, which carries
  the metric name and unwraps to \<open>err\<close>; the remote service is left as the lookup left
  it.
\<close>

theorem lookup_failure_is_wrapped:
  assumes "buildAlertV2CommonStruct env d client w = (Inr common, w1)"
    and "buildScopedSegmentedConfigStruct env d client w1 = (Inr scoped, w2)"
    and "GetLabelDescriptor client (Get_string d ''metric'') w2 = (Inl err, w3)"
  shows "buildAlertV2MetricStruct env d client w =
           ((None, Some (Errorf ''error getting descriptor for label %s: %w''
                           [Get_string d ''metric''] err)), w3) \<and>
         Unwrap (Errorf ''error getting descriptor for label %s: %w''
                   [Get_string d ''metric''] err) = Some err"
  using assms(3) by (simp add: build_steps [OF assms(1,2)])

theorem lookup_failure_is_wrapped_witness:
  "buildAlertV2MetricStruct plain_env
      (cpu_alert [] ''no_such_metric'' [''threshold'' \<mapsto> 90])
      (recording_client no_descriptor None) [] =
     ((None, Some (Errorf ''error getting descriptor for label %s: %w'' [''no_such_metric'']
                     (errorString ''404 Not Found''))),
      [CallGetLabelDescriptor ''no_such_metric'']) \<and>
   Unwrap (Errorf ''error getting descriptor for label %s: %w'' [''no_such_metric'']
             (errorString ''404 Not Found'')) = Some (errorString ''404 Not Found'')"
  using lookup_failure_is_wrapped [of plain_env
      "cpu_alert [] ''no_such_metric'' [''threshold'' \<mapsto> 90]"
      "recording_client no_descriptor None" "[]"
      "\<lparr>ID = 0, Type = AlertV2AlertType_Other [], CommonFields = ()\<rparr>" "[]" "()" "[]"
      "errorString ''404 Not Found''" "[CallGetLabelDescriptor ''no_such_metric'']"]
  by (simp add: example_defs Get_string_def)

text \<open>
  C10. In every request that \<open>buildAlertV2MetricStruct\<close> builds, the config is not nil,
  its \<open>ConditionOperator\<close> is the configured \<open>op\<close>, and when its \<open>WarningThreshold\<close> is
  not nil its \<open>WarningConditionOperator\<close> is that same operator.
\<close>

theorem warning_operator_is_condition_operator:
  assumes "buildAlertV2MetricStruct env d client w = ((Some alert, None), w')"
  shows "\<exists>config. Config alert = Some config \<and>
           ConditionOperator config = Get_string d ''op'' \<and>
           (WarningThreshold config \<noteq> None \<longrightarrow>
              WarningConditionOperator config = ConditionOperator config)"
proof -
  from build_Some [OF assms] obtain common scoped ld where
    "alert = \<lparr>AlertV2Common = common\<lparr>Type := AlertV2AlertType_Manual\<rparr>,
              Config = Some (built_config d scoped ld)\<rparr>"
    by blast
  then show ?thesis by (simp add: built_config_def)
qed

theorem warning_operator_is_condition_operator_witness:
  "buildAlertV2MetricStruct plain_env
      (cpu_alert [] ''sysdig_container_cpu_used_percent''
         [''threshold'' \<mapsto> 90, ''warning_threshold'' \<mapsto> 80])
      (recording_client public_name None) [] =
     ((Some (cpu_request 0 (Some 80) ''>''), None),
      [CallGetLabelDescriptor ''sysdig_container_cpu_used_percent'']) \<and>
   Config (cpu_request 0 (Some 80) ''>'') = Some (cpu_config (Some 80) ''>'') \<and>
   WarningThreshold (cpu_config (Some 80) ''>'') = Some 80 \<and>
   WarningConditionOperator (cpu_config (Some 80) ''>'') = ''>'' \<and>
   ConditionOperator (cpu_config (Some 80) ''>'') = ''>''"
proof -
  have b: "buildAlertV2MetricStruct plain_env
      (cpu_alert [] ''sysdig_container_cpu_used_percent''
         [''threshold'' \<mapsto> 90, ''warning_threshold'' \<mapsto> 80])
      (recording_client public_name None) [] =
     ((Some (cpu_request 0 (Some 80) ''>''), None),
      [CallGetLabelDescriptor ''sysdig_container_cpu_used_percent''])"
    using build_cpu_warned [of "[]" "''sysdig_container_cpu_used_percent''" None "[]"] by simp
  from warning_operator_is_condition_operator [OF b] obtain config where
    c: "Config (cpu_request 0 (Some 80) ''>'') = Some config"
    and op: "ConditionOperator config = Get_string (cpu_alert [] ''sysdig_container_cpu_used_percent''
         [''threshold'' \<mapsto> 90, ''warning_threshold'' \<mapsto> 80]) ''op''"
    and w: "WarningThreshold config \<noteq> None \<longrightarrow>
              WarningConditionOperator config = ConditionOperator config"
    by blast
  from c have config: "config = cpu_config (Some 80) ''>''" by (simp add: cpu_request_def)
  have wt: "WarningThreshold (cpu_config (Some 80) ''>'') = Some 80" by (simp add: cpu_config_def)
  from op have op': "ConditionOperator (cpu_config (Some 80) ''>'') = ''>''"
    by (simp add: config cpu_alert_def Get_string_def)
  from w wt op' have "WarningConditionOperator (cpu_config (Some 80) ''>'') = ''>''"
    by (simp add: config)
  with b c wt op' show ?thesis by (simp add: config)
qed

subsection \<open>The handlers\<close>

text \<open>
  C3, as amended. In the Create, Update and Delete handlers, an error returned by the
  client method (\<open>CreateAlertV2Metric\<close>, \<open>UpdateAlertV2Metric\<close>, \<open>DeleteAlertV2Metric\<close>)
  is returned as the one diagnostic \<^verbatim>\<open>diag.FromErr(err)\<close>, with the resource data
  untouched and the remote service as that one failed call left it: nothing is retried.
\<close>

theorem handlers_forward_client_errors:
  fixes env :: "('w, 'c, 's) declared_elsewhere"
  shows
    "(\<forall>d i client w a w1 err w2.
        sysdigMonitorClient i = Inr client \<and>
        buildAlertV2MetricStruct env d client w = ((Some a, None), w1) \<and>
        CreateAlertV2Metric client a w1 = (Inl err, w2) \<longrightarrow>
        resourceSysdigMonitorAlertV2MetricCreate env d i w =
          Returns ([\<lparr>Severity = SeverityError, Summary = err\<rparr>], d, w2))
     \<and>
     (\<forall>d i client w a w1 err w2.
        sysdigMonitorClient i = Inr client \<and>
        buildAlertV2MetricStruct env d client w = ((Some a, None), w1) \<and>
        UpdateAlertV2Metric client
          (a\<lparr>AlertV2Common := (AlertV2Common a)\<lparr>ID := fst (Atoi (rd_Id d))\<rparr>\<rparr>) w1 = (Inl err, w2) \<longrightarrow>
        resourceSysdigMonitorAlertV2MetricUpdate env d i w =
          Returns ([\<lparr>Severity = SeverityError, Summary = err\<rparr>], d, w2))
     \<and>
     (\<forall>d i client w n err w1.
        sysdigMonitorClient i = Inr client \<and>
        Atoi (rd_Id d) = (n, None) \<and>
        DeleteAlertV2Metric client n w = (Some err, w1) \<longrightarrow>
        resourceSysdigMonitorAlertV2MetricDelete env d i w =
          Returns ([\<lparr>Severity = SeverityError, Summary = err\<rparr>], d, w1))"
  by (simp add: resourceSysdigMonitorAlertV2MetricCreate_def
        resourceSysdigMonitorAlertV2MetricUpdate_def resourceSysdigMonitorAlertV2MetricDelete_def
        FromErr_def Let_def)

theorem handlers_forward_client_errors_witness:
  "resourceSysdigMonitorAlertV2MetricCreate plain_env
      (cpu_alert [] ''sysdig_container_cpu_used_percent'' [''threshold'' \<mapsto> 90])
      (clients (Some (errorString ''422 Unprocessable Entity''))) [] =
     Returns ([\<lparr>Severity = SeverityError, Summary = errorString ''422 Unprocessable Entity''\<rparr>],
              cpu_alert [] ''sysdig_container_cpu_used_percent'' [''threshold'' \<mapsto> 90],
              [CallGetLabelDescriptor ''sysdig_container_cpu_used_percent'',
               CallCreateAlertV2Metric]) \<and>
   resourceSysdigMonitorAlertV2MetricUpdate plain_env
      (cpu_alert ''7'' ''sysdig_container_cpu_used_percent'' [''threshold'' \<mapsto> 90])
      (clients (Some (errorString ''422 Unprocessable Entity''))) [] =
     Returns ([\<lparr>Severity = SeverityError, Summary = errorString ''422 Unprocessable Entity''\<rparr>],
              cpu_alert ''7'' ''sysdig_container_cpu_used_percent'' [''threshold'' \<mapsto> 90],
              [CallGetLabelDescriptor ''sysdig_container_cpu_used_percent'',
               CallUpdateAlertV2Metric 7]) \<and>
   resourceSysdigMonitorAlertV2MetricDelete plain_env
      (cpu_alert ''7'' ''sysdig_container_cpu_used_percent'' [''threshold'' \<mapsto> 90])
      (clients (Some (errorString ''403 Forbidden''))) [] =
     Returns ([\<lparr>Severity = SeverityError, Summary = errorString ''403 Forbidden''\<rparr>],
              cpu_alert ''7'' ''sysdig_container_cpu_used_percent'' [''threshold'' \<mapsto> 90],
              [CallDeleteAlertV2Metric 7])"
proof (intro conjI)
  note create = handlers_forward_client_errors [THEN conjunct1, rule_format]
  note update = handlers_forward_client_errors [THEN conjunct2, THEN conjunct1, rule_format]
  note delete = handlers_forward_client_errors [THEN conjunct2, THEN conjunct2, rule_format]
  let ?e = "errorString ''422 Unprocessable Entity''"
  let ?m = "''sysdig_container_cpu_used_percent''"
  show "resourceSysdigMonitorAlertV2MetricCreate plain_env
      (cpu_alert [] ?m [''threshold'' \<mapsto> 90]) (clients (Some ?e)) [] =
     Returns ([\<lparr>Severity = SeverityError, Summary = ?e\<rparr>],
              cpu_alert [] ?m [''threshold'' \<mapsto> 90],
              [CallGetLabelDescriptor ?m, CallCreateAlertV2Metric])"
    using create [of "clients (Some ?e)" "recording_client public_name (Some ?e)" plain_env
        "cpu_alert [] ?m [''threshold'' \<mapsto> 90]" "[]" "cpu_request 0 None []"
        "[CallGetLabelDescriptor ?m]" ?e "[CallGetLabelDescriptor ?m, CallCreateAlertV2Metric]"]
      build_cpu [of "[]" ?m "Some ?e" "[]"]
    by (simp add: clients_def) (simp add: recording_client_def)
  show "resourceSysdigMonitorAlertV2MetricUpdate plain_env
      (cpu_alert ''7'' ?m [''threshold'' \<mapsto> 90]) (clients (Some ?e)) [] =
     Returns ([\<lparr>Severity = SeverityError, Summary = ?e\<rparr>],
              cpu_alert ''7'' ?m [''threshold'' \<mapsto> 90],
              [CallGetLabelDescriptor ?m, CallUpdateAlertV2Metric 7])"
    using update [of "clients (Some ?e)" "recording_client public_name (Some ?e)" plain_env
        "cpu_alert ''7'' ?m [''threshold'' \<mapsto> 90]" "[]" "cpu_request 0 None []"
        "[CallGetLabelDescriptor ?m]" ?e "[CallGetLabelDescriptor ?m, CallUpdateAlertV2Metric 7]"]
      build_cpu [of "''7''" ?m "Some ?e" "[]"]
    by (simp add: clients_def) (simp add: recording_client_def cpu_alert_def cpu_request_def Atoi_7)
  show "resourceSysdigMonitorAlertV2MetricDelete plain_env
      (cpu_alert ''7'' ?m [''threshold'' \<mapsto> 90]) (clients (Some (errorString ''403 Forbidden''))) [] =
     Returns ([\<lparr>Severity = SeverityError, Summary = errorString ''403 Forbidden''\<rparr>],
              cpu_alert ''7'' ?m [''threshold'' \<mapsto> 90], [CallDeleteAlertV2Metric 7])"
    using delete [of "clients (Some (errorString ''403 Forbidden''))"
        "recording_client public_name (Some (errorString ''403 Forbidden''))"
        "cpu_alert ''7'' ?m [''threshold'' \<mapsto> 90]" 7 "[]" "errorString ''403 Forbidden''"
        "[CallDeleteAlertV2Metric 7]" plain_env]
    by (simp add: clients_def) (simp add: recording_client_def cpu_alert_def Atoi_7)
qed

text \<open>
  C3 as stated fails for the Read handler: \<open>GetAlertV2MetricById\<close> answers with an error
  (a server error here), and the handler returns no diagnostic and clears the ID.
\<close>

theorem read_error_not_surfaced:
  "GetAlertV2MetricById
      (recording_client public_name (Some (errorString ''500 Internal Server Error''))) 7 [] =
     (Inl (errorString ''500 Internal Server Error''), [CallGetAlertV2MetricById 7]) \<and>
   resourceSysdigMonitorAlertV2MetricRead plain_env
      (cpu_alert ''7'' ''sysdig_container_cpu_used_percent'' [''threshold'' \<mapsto> 90])
      (clients (Some (errorString ''500 Internal Server Error''))) [] =
     Returns ([], cpu_alert [] ''sysdig_container_cpu_used_percent'' [''threshold'' \<mapsto> 90],
              [CallGetAlertV2MetricById 7])"
  by (simp add: resourceSysdigMonitorAlertV2MetricRead_def clients_def cpu_alert_def
        recording_client_def Atoi_7 SetId_def)

text \<open>
  C8. Whatever error \<open>GetAlertV2MetricById\<close> returns, the Read handler sets the ID to
  the empty string and returns nil diagnostics; the rest of the resource data is as it
  was.
\<close>

theorem read_clears_id_on_error:
  assumes "sysdigMonitorClient i = Inr client"
    and "Atoi (rd_Id d) = (n, None)"
    and "GetAlertV2MetricById client n w = (Inl err, w')"
  shows "resourceSysdigMonitorAlertV2MetricRead env d i w = Returns ([], d\<lparr>rd_Id := []\<rparr>, w')"
  using assms by (simp add: resourceSysdigMonitorAlertV2MetricRead_def SetId_def)

theorem read_clears_id_on_error_witness:
  "resourceSysdigMonitorAlertV2MetricRead plain_env
      (cpu_alert ''7'' ''sysdig_container_cpu_used_percent'' [''threshold'' \<mapsto> 90])
      (clients (Some (errorString ''connection refused''))) [] =
     Returns ([], cpu_alert [] ''sysdig_container_cpu_used_percent'' [''threshold'' \<mapsto> 90],
              [CallGetAlertV2MetricById 7])"
  using read_clears_id_on_error [of "clients (Some (errorString ''connection refused''))"
      "recording_client public_name (Some (errorString ''connection refused''))"
      "cpu_alert ''7'' ''sysdig_container_cpu_used_percent'' [''threshold'' \<mapsto> 90]" 7 "[]"
      "errorString ''connection refused''" "[CallGetAlertV2MetricById 7]" plain_env]
  by (simp add: clients_def cpu_alert_def recording_client_def Atoi_7)

text \<open>
  C9, as amended. When \<^verbatim>\<open>strconv.Atoi\<close> fails on the stored ID, returning \<open>n\<close> with the
  error \<open>err\<close>: the Read and Delete handlers return \<open>err\<close> as their one diagnostic and
  make no call to the client (the remote service is as it was); the Update handler drops
  \<open>err\<close> and sends the request under the ID \<open>n\<close>. Atoi fails on every ID that is no
  decimal integer, and for such an ID of at most 20 characters \<open>n\<close> is 0.
\<close>

theorem parse_error_handling:
  fixes env :: "('w, 'c, 's) declared_elsewhere"
  shows
    "(\<forall>d i client w n err.
        sysdigMonitorClient i = Inr client \<and> Atoi (rd_Id d) = (n, Some err) \<longrightarrow>
        resourceSysdigMonitorAlertV2MetricRead env d i w =
          Returns ([\<lparr>Severity = SeverityError, Summary = err\<rparr>], d, w) \<and>
        resourceSysdigMonitorAlertV2MetricDelete env d i w =
          Returns ([\<lparr>Severity = SeverityError, Summary = err\<rparr>], d, w) \<and>
        (\<forall>a w1.
           buildAlertV2MetricStruct env d client w = ((Some a, None), w1) \<longrightarrow>
           resourceSysdigMonitorAlertV2MetricUpdate env d i w =
             (case UpdateAlertV2Metric client
                     (a\<lparr>AlertV2Common := (AlertV2Common a)\<lparr>ID := n\<rparr>\<rparr>) w1 of
                (Inl e, w2) \<Rightarrow> Returns (FromErr (Some e), d, w2)
              | (Inr aUpdated, w2) \<Rightarrow>
                  (case updateAlertV2MetricState env d aUpdated of
                     Panics \<Rightarrow> Panics
                   | Returns (d', Some e) \<Rightarrow> Returns (FromErr (Some e), d', w2)
                   | Returns (d', None) \<Rightarrow> Returns ([], d', w2)))))
     \<and>
     (\<forall>s. \<not> decimal_integer s \<longrightarrow>
        snd (Atoi s) \<noteq> None \<and>
        (length s \<le> 20 \<longrightarrow> Atoi s = (0, Some (NumError ''Atoi'' s ErrSyntax))))"
proof (intro conjI)
  show "\<forall>d i client w n err.
        sysdigMonitorClient i = Inr client \<and> Atoi (rd_Id d) = (n, Some err) \<longrightarrow>
        resourceSysdigMonitorAlertV2MetricRead env d i w =
          Returns ([\<lparr>Severity = SeverityError, Summary = err\<rparr>], d, w) \<and>
        resourceSysdigMonitorAlertV2MetricDelete env d i w =
          Returns ([\<lparr>Severity = SeverityError, Summary = err\<rparr>], d, w) \<and>
        (\<forall>a w1.
           buildAlertV2MetricStruct env d client w = ((Some a, None), w1) \<longrightarrow>
           resourceSysdigMonitorAlertV2MetricUpdate env d i w =
             (case UpdateAlertV2Metric client
                     (a\<lparr>AlertV2Common := (AlertV2Common a)\<lparr>ID := n\<rparr>\<rparr>) w1 of
                (Inl e, w2) \<Rightarrow> Returns (FromErr (Some e), d, w2)
              | (Inr aUpdated, w2) \<Rightarrow>
                  (case updateAlertV2MetricState env d aUpdated of
                     Panics \<Rightarrow> Panics
                   | Returns (d', Some e) \<Rightarrow> Returns (FromErr (Some e), d', w2)
                   | Returns (d', None) \<Rightarrow> Returns ([], d', w2))))"
    by (simp add: resourceSysdigMonitorAlertV2MetricRead_def
          resourceSysdigMonitorAlertV2MetricDelete_def resourceSysdigMonitorAlertV2MetricUpdate_def
          FromErr_def Let_def)
  show "\<forall>s. \<not> decimal_integer s \<longrightarrow>
        snd (Atoi s) \<noteq> None \<and>
        (length s \<le> 20 \<longrightarrow> Atoi s = (0, Some (NumError ''Atoi'' s ErrSyntax)))"
    using Atoi_not_decimal Atoi_not_decimal_short by blast
qed

theorem parse_error_handling_witness:
  "\<not> decimal_integer ''abc'' \<and>
   Atoi ''abc'' = (0, Some (NumError ''Atoi'' ''abc'' ErrSyntax)) \<and>
   resourceSysdigMonitorAlertV2MetricRead plain_env
      (cpu_alert ''abc'' ''sysdig_container_cpu_used_percent'' [''threshold'' \<mapsto> 90])
      (clients None) [] =
     Returns ([\<lparr>Severity = SeverityError, Summary = NumError ''Atoi'' ''abc'' ErrSyntax\<rparr>],
              cpu_alert ''abc'' ''sysdig_container_cpu_used_percent'' [''threshold'' \<mapsto> 90], []) \<and>
   resourceSysdigMonitorAlertV2MetricDelete plain_env
      (cpu_alert ''abc'' ''sysdig_container_cpu_used_percent'' [''threshold'' \<mapsto> 90])
      (clients None) [] =
     Returns ([\<lparr>Severity = SeverityError, Summary = NumError ''Atoi'' ''abc'' ErrSyntax\<rparr>],
              cpu_alert ''abc'' ''sysdig_container_cpu_used_percent'' [''threshold'' \<mapsto> 90], []) \<and>
   (case resourceSysdigMonitorAlertV2MetricUpdate plain_env
           (cpu_alert ''abc'' ''sysdig_container_cpu_used_percent'' [''threshold'' \<mapsto> 90])
           (clients None) [] of
      Returns (diags, d', calls) \<Rightarrow>
        diags = [] \<and>
        calls = [CallGetLabelDescriptor ''sysdig_container_cpu_used_percent'',
                 CallUpdateAlertV2Metric 0]
    | Panics \<Rightarrow> False)"
proof -
  let ?m = "''sysdig_container_cpu_used_percent''"
  let ?d = "cpu_alert ''abc'' ?m [''threshold'' \<mapsto> 90]"
  note handlers = parse_error_handling [where env = plain_env, THEN conjunct1, rule_format,
      of "clients None" "recording_client public_name None" ?d 0
         "NumError ''Atoi'' ''abc'' ErrSyntax" "[]"]
  note atoi = parse_error_handling [where env = plain_env, THEN conjunct2, rule_format, of "''abc''"]
  have nd: "\<not> decimal_integer ''abc''" by (simp add: decimal_integer_def is_digit_def)
  from atoi [OF nd] have a: "Atoi ''abc'' = (0, Some (NumError ''Atoi'' ''abc'' ErrSyntax))"
    by simp
  have h: "sysdigMonitorClient (clients None) = Inr (recording_client public_name None) \<and>
           Atoi (rd_Id ?d) = (0, Some (NumError ''Atoi'' ''abc'' ErrSyntax))"
    by (simp add: clients_def cpu_alert_def a)
  note r = handlers [OF h]
  have u: "resourceSysdigMonitorAlertV2MetricUpdate plain_env ?d (clients None) [] =
      Returns ([], written_state ?d (cpu_config None []),
               [CallGetLabelDescriptor ?m, CallUpdateAlertV2Metric 0])"
    using r [THEN conjunct2, THEN conjunct2, rule_format,
        of "cpu_request 0 None []" "[CallGetLabelDescriptor ?m]"]
      build_cpu [of "''abc''" ?m None "[]"]
    by (simp add: update_cpu) (simp add: recording_client_def cpu_request_def update_cpu [unfolded cpu_request_def])
  from nd a r u show ?thesis by simp
qed

text \<open>
  C9 as stated fails: the ID \<^verbatim>\<open>99999999999999999999x\<close> is no decimal integer, but Atoi
  meets the overflow of its twenty digits before the letter and returns the largest
  \<^verbatim>\<open>int\<close> with a range error, so the Update handler sends the request under the ID
  9223372036854775807, not 0.
\<close>

theorem update_proceeds_with_max_int:
  "\<not> decimal_integer ''99999999999999999999x'' \<and>
   (case resourceSysdigMonitorAlertV2MetricUpdate plain_env
           (cpu_alert ''99999999999999999999x'' ''sysdig_container_cpu_used_percent''
              [''threshold'' \<mapsto> 90])
           (clients None) [] of
      Returns (diags, d', calls) \<Rightarrow>
        diags = [] \<and>
        calls = [CallGetLabelDescriptor ''sysdig_container_cpu_used_percent'',
                 CallUpdateAlertV2Metric 9223372036854775807]
    | Panics \<Rightarrow> False)"
  by (simp add: update_handler_cpu Atoi_overflow_then_letter decimal_integer_def is_digit_def)

end
